theory Spec2Isabelle
  imports Main
begin

section \<open>The document model of package openapi\<close>

text \<open>
  Go strings are byte sequences, and so are HOL strings: \<open>length\<close> is Go's \<open>len\<close> and
  \<open>take n\<close> is the slice \<open>s[:n]\<close>.

  A Go pointer is modelled as an optional address (\<open>None\<close> is \<open>nil\<close>) into a heap that
  holds one table of objects per pointed-to struct type. Every object that the code
  reaches through a pointer lives in the heap, so that two slots holding the same pointer
  share one object, as they do in Go. Slices and maps are modelled by value: a slice as a
  list, a map as an association list with distinct keys whose order stands for the order in
  which one \<open>range\<close> loop visits the keys (Go leaves that order open, so every statement
  below holds for any order). The backing storage of the parameter slice and of the
  response map of one endpoint is taken not to be shared with another endpoint, which is
  the case for every document the decoders or the converter build.
\<close>

type_synonym ptr = "nat option"

record Schema =
  Schema_Type :: string
  Schema_Ref :: string

record MediaType =
  MediaType_Schema :: ptr

record Parameter =
  Parameter_Name :: string
  Parameter_In :: string
  Parameter_Required :: bool
  Parameter_Type :: string
  Parameter_Schema :: ptr
  Parameter_Description :: string
  Parameter_Ref :: string

record RequestBody =
  RequestBody_Description :: string
  RequestBody_Content :: "(string \<times> ptr) list"
  RequestBody_Ref :: string

record Response =
  Response_Description :: string
  Response_Content :: "(string \<times> ptr) list"
  Response_Ref :: string

record Components =
  Components_Schemas :: "(string \<times> ptr) list"
  Components_Parameters :: "(string \<times> ptr) list"
  Components_RequestBodies :: "(string \<times> ptr) list"
  Components_Responses :: "(string \<times> ptr) list"

record Endpoint =
  Endpoint_Path :: string
  Endpoint_Method :: string
  Endpoint_Summary :: string
  Endpoint_Description :: string
  Endpoint_Parameters :: "ptr list"
  Endpoint_RequestBody :: ptr
  Endpoint_Responses :: "(string \<times> ptr) list"

text \<open>
  \<open>Components\<close> is reached through a pointer in the source; nothing ever writes to the
  table, so the document holds it by value, \<open>None\<close> for the nil pointer.
\<close>

record APIDocument =
  Doc_Title :: string
  Doc_Version :: string
  Doc_Description :: string
  Doc_Endpoints :: "Endpoint list"
  Doc_Servers :: "string list"
  Doc_Components :: "Components option"

text \<open>
  The heap. \<open>next_addr\<close> is the allocation frontier: \<open>&paramCopy\<close> and \<open>&respCopy\<close> in the
  converter take the next address.
\<close>

record heap =
  schemas :: "nat \<Rightarrow> Schema"
  mediaTypes :: "nat \<Rightarrow> MediaType"
  parameters :: "nat \<Rightarrow> Parameter"
  requestBodies :: "nat \<Rightarrow> RequestBody"
  responses :: "nat \<Rightarrow> Response"
  next_addr :: nat

text \<open>
  What a call can end with besides a nil error: an error value with its message, the
  run-time panic of a nil pointer dereference, and an error handed up from the file
  system or a decoder.
\<close>

datatype error = Error string | NilDereference | External string

section \<open>Package fmt, for a format without operands\<close>

text \<open>
  \<open>ResolveReferences\<close> builds its errors with \<open>fmt.Errorf(errMsg)\<close>: the text is handed
  over as the format, with no operands. What follows is \<open>doPrintf\<close> of package fmt for
  an empty operand list. Text outside verbs is copied. At a \<open>%\<close> the flags, an argument
  index \<open>[n]\<close>, a width, a precision and a second argument index are read, then the verb,
  which is one UTF-8 encoded rune (the replacement rune, one byte consumed, for a byte
  sequence that is no encoding). The verb \<open>%\<close> prints a percent sign; every other verb
  finds no operand and prints \<open>%!v(MISSING)\<close>, or \<open>%!v(BADINDEX)\<close> after an argument
  index, which no operand can satisfy; \<open>*\<close> as width or precision prints \<open>%!(BADWIDTH)\<close>
  or \<open>%!(BADPREC)\<close>; a format that ends inside a verb prints \<open>%!(NOVERB)\<close>.
\<close>

definition isFlag :: "char \<Rightarrow> bool" where
  "isFlag c = (c = CHR ''#'' \<or> c = CHR ''0'' \<or> c = CHR ''+'' \<or> c = CHR ''-'' \<or> c = CHR '' '')"

definition isDigit :: "char \<Rightarrow> bool" where
  "isDigit c = ((48 :: nat) \<le> of_char c \<and> of_char c \<le> (57 :: nat))"

text \<open>
  \<open>parsenum\<close> reads a decimal number and returns whether there was one and the rest
  of the text; a number that has grown beyond \<open>1e6\<close> is given up and the position moved
  to the end.
\<close>

fun parsenumFrom :: "nat \<Rightarrow> bool \<Rightarrow> string \<Rightarrow> bool \<times> string" where
  "parsenumFrom num isnum [] = (isnum, [])"
| "parsenumFrom num isnum (c # cs) =
     (if isDigit c
      then (if 1000000 < num then (False, [])
            else parsenumFrom (num * 10 + (of_char c - 48)) True cs)
      else (isnum, c # cs))"

definition parsenum :: "string \<Rightarrow> bool \<times> string" where
  "parsenum s = parsenumFrom 0 False s"

text \<open>
  \<open>parseArgNumber\<close> is given the text from the opening bracket on and returns the
  number of bytes to skip and whether the brackets hold a number and nothing else.
\<close>

definition parseArgNumber :: "string \<Rightarrow> nat \<times> bool" where
  "parseArgNumber format =
     (if length format < 3 then (1, False)
      else if CHR '']'' \<notin> set (tl format) then (1, False)
      else (case parsenum (takeWhile (\<lambda>c. c \<noteq> CHR '']'') (tl format)) of
              (isnum, rest) \<Rightarrow>
                (length (takeWhile (\<lambda>c. c \<noteq> CHR '']'') (tl format)) + 2, isnum \<and> rest = [])))"

text \<open>
  \<open>argNumber\<close> returns the rest of the text, whether an index was found
  (\<open>afterIndex\<close>), and \<open>goodArgNum\<close>: with no operands every index is out of range.
\<close>

definition argNumber :: "string \<Rightarrow> bool \<Rightarrow> string \<times> bool \<times> bool" where
  "argNumber s goodArgNum =
     (if take 1 s \<noteq> ''['' then (s, False, goodArgNum)
      else (case parseArgNumber s of (wid, ok) \<Rightarrow> (drop wid s, ok, False)))"

definition continuation :: "char \<Rightarrow> bool" where
  "continuation c = ((0x80 :: nat) \<le> of_char c \<and> of_char c \<le> (0xBF :: nat))"

text \<open>
  The number of bytes of the UTF-8 encoding at the head of the text, 0 when the head
  is no encoding (\<open>utf8.DecodeRuneInString\<close> then returns the replacement rune and the
  width 1).
\<close>

fun runeSize :: "string \<Rightarrow> nat" where
  "runeSize [] = 0"
| "runeSize [c] = (if (of_char c :: nat) < 0x80 then 1 else 0)"
| "runeSize (c # c1 # cs) =
     (if (of_char c :: nat) < 0x80 then 1
      else if (0xC2 :: nat) \<le> of_char c \<and> (of_char c :: nat) \<le> 0xDF then
        (if continuation c1 then 2 else 0)
      else if (0xE0 :: nat) \<le> of_char c \<and> (of_char c :: nat) \<le> 0xEF then
        (if (if (of_char c :: nat) = 0xE0 then 0xA0 else 0x80) \<le> (of_char c1 :: nat) \<and>
            (of_char c1 :: nat) \<le> (if (of_char c :: nat) = 0xED then 0x9F else 0xBF) \<and>
            list_all continuation (take 1 cs) \<and> 1 \<le> length cs
         then 3 else 0)
      else if (0xF0 :: nat) \<le> of_char c \<and> (of_char c :: nat) \<le> 0xF4 then
        (if (if (of_char c :: nat) = 0xF0 then 0x90 else 0x80) \<le> (of_char c1 :: nat) \<and>
            (of_char c1 :: nat) \<le> (if (of_char c :: nat) = 0xF4 then 0x8F else 0xBF) \<and>
            list_all continuation (take 2 cs) \<and> 2 \<le> length cs
         then 4 else 0)
      else 0)"

definition verbRune :: "string \<Rightarrow> string \<times> nat" where
  "verbRune s =
     (if runeSize s = 0 then ([CHR 0xEF, CHR 0xBF, CHR 0xBD], 1)
      else (take (runeSize s) s, runeSize s))"

text \<open>Width and precision: what is printed, the rest of the text, and the two flags.\<close>

definition verbWidth :: "string \<Rightarrow> bool \<Rightarrow> bool \<Rightarrow> string \<times> string \<times> bool \<times> bool" where
  "verbWidth s afterIndex goodArgNum =
     (if take 1 s = ''*'' then (''%!(BADWIDTH)'', drop 1 s, False, goodArgNum)
      else (case parsenum s of
              (widPresent, rest) \<Rightarrow>
                ([], rest, afterIndex, goodArgNum \<and> \<not> (afterIndex \<and> widPresent))))"

definition verbPrecision :: "string \<Rightarrow> bool \<Rightarrow> bool \<Rightarrow> string \<times> string \<times> bool \<times> bool" where
  "verbPrecision s afterIndex goodArgNum =
     (if take 1 s \<noteq> ''.'' then ([], s, afterIndex, goodArgNum)
      else (case argNumber (drop 1 s) (goodArgNum \<and> \<not> afterIndex) of
              (s', afterIndex', goodArgNum') \<Rightarrow>
                if take 1 s' = ''*'' then (''%!(BADPREC)'', drop 1 s', False, goodArgNum')
                else (case parsenum s' of
                        (precPresent, rest) \<Rightarrow> ([], rest, afterIndex', goodArgNum'))))"

text \<open>
  One verb, from the byte after the \<open>%\<close>: what is printed and the number of bytes the
  verb takes.
\<close>

definition verb :: "string \<Rightarrow> string \<times> nat" where
  "verb s =
     (case argNumber (dropWhile isFlag s) True of
        (s1, afterIndex1, good1) \<Rightarrow>
          (case verbWidth s1 afterIndex1 good1 of
             (out2, s2, afterIndex2, good2) \<Rightarrow>
               (case verbPrecision s2 afterIndex2 good2 of
                  (out3, s3, afterIndex3, good3) \<Rightarrow>
                    (case (if afterIndex3 then (s3, afterIndex3, good3) else argNumber s3 good3) of
                       (s4, afterIndex4, good4) \<Rightarrow>
                         if s4 = [] then (out2 @ out3 @ ''%!(NOVERB)'', length s)
                         else (case verbRune s4 of
                                 (v, wid) \<Rightarrow>
                                   (out2 @ out3 @
                                    (if v = ''%'' then ''%''
                                     else if \<not> good4 then ''%!'' @ v @ ''(BADINDEX)''
                                     else ''%!'' @ v @ ''(MISSING)''),
                                    length s - length s4 + wid))))))"

text \<open>\<open>doPrintfFrom k format\<close> is the output for the format from its byte \<open>k\<close> on.\<close>

fun doPrintfFrom :: "nat \<Rightarrow> string \<Rightarrow> string" where
  "doPrintfFrom k [] = []"
| "doPrintfFrom (Suc k) (c # cs) = doPrintfFrom k cs"
| "doPrintfFrom 0 (c # cs) =
     (if c = CHR ''%'' then (case verb cs of (out, n) \<Rightarrow> out @ doPrintfFrom n cs)
      else c # doPrintfFrom 0 cs)"

definition Errorf :: "string \<Rightarrow> error" where
  "Errorf format = Error (doPrintfFrom 0 format)"

section \<open>Reference resolution\<close>

definition HasPrefix :: "string \<Rightarrow> string \<Rightarrow> bool" where
  "HasPrefix s p = (take (length p) s = p)"

definition TrimPrefix :: "string \<Rightarrow> string \<Rightarrow> string" where
  "TrimPrefix s p = (if HasPrefix s p then drop (length p) s else s)"

definition extractNameFromRef :: "string \<Rightarrow> string \<Rightarrow> string" where
  "extractNameFromRef ref componentType =
     TrimPrefix ref (''#/components/'' @ componentType @ ''/'')"

text \<open>
  The lookup \<open>resolved, ok := table[refName]\<close> with its two branches: the value stored
  under the name (which may be a nil pointer), or the error \<open>fmt.Errorf(errMsg)\<close>.
  \<open>kind\<close> is the word of the message, \<open>componentType\<close> the segment of the prefix.
\<close>

definition lookupRef :: "string \<Rightarrow> string \<Rightarrow> (string \<times> ptr) list \<Rightarrow> string \<Rightarrow> error + ptr" where
  "lookupRef kind componentType table ref =
     (case map_of table (extractNameFromRef ref componentType) of
        Some resolved \<Rightarrow> Inr resolved
      | None \<Rightarrow> Inl (Errorf (''unresolved '' @ kind @ '' reference: '' @ ref)))"

text \<open>
  \<open>resolveSchema(s, doc)\<close> returns the pointer that \<open>*s\<close> holds afterwards; its caller
  stores it into the field \<open>s\<close> points to.
\<close>

definition resolveSchema :: "Components \<Rightarrow> heap \<Rightarrow> ptr \<Rightarrow> error + ptr" where
  "resolveSchema c h s =
     (case s of
        None \<Rightarrow> Inr None
      | Some a \<Rightarrow>
          if Schema_Ref (schemas h a) \<noteq> []
          then lookupRef ''schema'' ''schemas'' (Components_Schemas c) (Schema_Ref (schemas h a))
          else Inr s)"

definition set_Parameter_Schema :: "nat \<Rightarrow> ptr \<Rightarrow> heap \<Rightarrow> heap" where
  "set_Parameter_Schema a s h =
     h\<lparr>parameters := (parameters h)(a := (parameters h a)\<lparr>Parameter_Schema := s\<rparr>)\<rparr>"

definition set_MediaType_Schema :: "nat \<Rightarrow> ptr \<Rightarrow> heap \<Rightarrow> heap" where
  "set_MediaType_Schema m s h =
     h\<lparr>mediaTypes := (mediaTypes h)(m := (mediaTypes h m)\<lparr>MediaType_Schema := s\<rparr>)\<rparr>"

text \<open>
  The parameter loop. \<open>param\<close> is the pointer read from slot \<open>j\<close> when the iteration
  starts; the slot is overwritten with \<open>resolved\<close>, and \<open>resolveSchema\<close> is then given
  \<open>&param.Schema\<close>, the field of the object \<open>param\<close> still points to.
\<close>

fun resolveParameters :: "Components \<Rightarrow> ptr list \<Rightarrow> heap \<Rightarrow> error option \<times> ptr list \<times> heap" where
  "resolveParameters c [] h = (None, [], h)"
| "resolveParameters c (None # ps) h =
     (case resolveParameters c ps h of (e, ps', h') \<Rightarrow> (e, None # ps', h'))"
| "resolveParameters c (Some param # ps) h =
     (case (if Parameter_Ref (parameters h param) \<noteq> []
            then lookupRef ''parameter'' ''parameters'' (Components_Parameters c)
                   (Parameter_Ref (parameters h param))
            else Inr (Some param)) of
        Inl e \<Rightarrow> (Some e, Some param # ps, h)
      | Inr slot \<Rightarrow>
          (case resolveSchema c h (Parameter_Schema (parameters h param)) of
             Inl e \<Rightarrow> (Some e, slot # ps, h)
           | Inr s \<Rightarrow>
               (case resolveParameters c ps (set_Parameter_Schema param s h) of
                  (e, ps', h') \<Rightarrow> (e, slot # ps', h'))))"

text \<open>
  The loop over a content map, written twice in the source (for the request body and
  for each response) with the same body.
\<close>

fun resolveContent :: "Components \<Rightarrow> (string \<times> ptr) list \<Rightarrow> heap \<Rightarrow> error option \<times> heap" where
  "resolveContent c [] h = (None, h)"
| "resolveContent c ((mediaType, None) # rest) h = resolveContent c rest h"
| "resolveContent c ((mediaType, Some mt) # rest) h =
     (if MediaType_Schema (mediaTypes h mt) \<noteq> None
      then (case resolveSchema c h (MediaType_Schema (mediaTypes h mt)) of
              Inl e \<Rightarrow> (Some e, h)
            | Inr s \<Rightarrow> resolveContent c rest (set_MediaType_Schema mt s h))
      else resolveContent c rest h)"

text \<open>
  The request body: the field \<open>ep.RequestBody\<close> is overwritten and then read again, so
  the content walked is that of the object now in the field; a nil pointer stored under
  the name makes \<open>ep.RequestBody.Content\<close> panic.
\<close>

definition resolveRequestBody :: "Components \<Rightarrow> ptr \<Rightarrow> heap \<Rightarrow> error option \<times> ptr \<times> heap" where
  "resolveRequestBody c rb h =
     (case rb of
        None \<Rightarrow> (None, None, h)
      | Some b \<Rightarrow>
          (case (if RequestBody_Ref (requestBodies h b) \<noteq> []
                 then lookupRef ''requestBody'' ''requestBodies'' (Components_RequestBodies c)
                        (RequestBody_Ref (requestBodies h b))
                 else Inr (Some b)) of
             Inl e \<Rightarrow> (Some e, Some b, h)
           | Inr None \<Rightarrow> (Some NilDereference, None, h)
           | Inr (Some b') \<Rightarrow>
               (case resolveContent c (RequestBody_Content (requestBodies h b')) h of
                  (e, h') \<Rightarrow> (e, Some b', h'))))"

text \<open>
  The response loop: as for parameters, \<open>resp\<close> keeps the pointer read from the map
  when the iteration starts, and the content walked is \<open>resp.Content\<close>.
\<close>

fun resolveResponses ::
  "Components \<Rightarrow> (string \<times> ptr) list \<Rightarrow> heap \<Rightarrow> error option \<times> (string \<times> ptr) list \<times> heap" where
  "resolveResponses c [] h = (None, [], h)"
| "resolveResponses c ((code, None) # rest) h =
     (case resolveResponses c rest h of (e, rest', h') \<Rightarrow> (e, (code, None) # rest', h'))"
| "resolveResponses c ((code, Some resp) # rest) h =
     (case (if Response_Ref (responses h resp) \<noteq> []
            then lookupRef ''response'' ''responses'' (Components_Responses c)
                   (Response_Ref (responses h resp))
            else Inr (Some resp)) of
        Inl e \<Rightarrow> (Some e, (code, Some resp) # rest, h)
      | Inr slot \<Rightarrow>
          (case resolveContent c (Response_Content (responses h resp)) h of
             (Some e, h') \<Rightarrow> (Some e, (code, slot) # rest, h')
           | (None, h') \<Rightarrow>
               (case resolveResponses c rest h' of
                  (e, rest', h'') \<Rightarrow> (e, (code, slot) # rest', h''))))"

text \<open>The body of the loop over \<open>doc.Endpoints\<close>, for one endpoint.\<close>

definition resolveEndpoint :: "Components \<Rightarrow> Endpoint \<Rightarrow> heap \<Rightarrow> error option \<times> Endpoint \<times> heap" where
  "resolveEndpoint c ep h =
     (case resolveParameters c (Endpoint_Parameters ep) h of
        (Some e, ps, h1) \<Rightarrow> (Some e, ep\<lparr>Endpoint_Parameters := ps\<rparr>, h1)
      | (None, ps, h1) \<Rightarrow>
          (case resolveRequestBody c (Endpoint_RequestBody ep) h1 of
             (Some e, rb, h2) \<Rightarrow>
               (Some e, ep\<lparr>Endpoint_Parameters := ps, Endpoint_RequestBody := rb\<rparr>, h2)
           | (None, rb, h2) \<Rightarrow>
               (case resolveResponses c (Endpoint_Responses ep) h2 of
                  (e, rs, h3) \<Rightarrow>
                    (e, ep\<lparr>Endpoint_Parameters := ps, Endpoint_RequestBody := rb,
                            Endpoint_Responses := rs\<rparr>, h3))))"

fun resolveEndpoints :: "Components \<Rightarrow> Endpoint list \<Rightarrow> heap \<Rightarrow> error option \<times> Endpoint list \<times> heap" where
  "resolveEndpoints c [] h = (None, [], h)"
| "resolveEndpoints c (ep # eps) h =
     (case resolveEndpoint c ep h of
        (Some e, ep', h') \<Rightarrow> (Some e, ep' # eps, h')
      | (None, ep', h') \<Rightarrow>
          (case resolveEndpoints c eps h' of (e, eps', h'') \<Rightarrow> (e, ep' # eps', h'')))"

text \<open>
  \<open>ResolveReferences\<close> works in place: the model returns, next to the error, the
  document and the heap as the caller finds them after the call, also when the call
  fails.
\<close>

definition ResolveReferences :: "APIDocument \<Rightarrow> heap \<Rightarrow> error option \<times> APIDocument \<times> heap" where
  "ResolveReferences doc h =
     (case Doc_Components doc of
        None \<Rightarrow> (None, doc, h)
      | Some c \<Rightarrow>
          (case resolveEndpoints c (Doc_Endpoints doc) h of
             (e, eps, h') \<Rightarrow> (e, doc\<lparr>Doc_Endpoints := eps\<rparr>, h')))"

section \<open>The Swagger 2.0 model and its conversion\<close>

text \<open>
  An operation holds its parameters and responses by value. The operations of a path
  item are reached through pointers that the converter only reads (\<open>*item.Get\<close>), so
  the path item holds them by value, \<open>None\<close> for nil. \<open>Paths\<close> is a map: its list is in
  the order in which the loop of the converter visits the paths.
\<close>

record SwaggerInfo =
  Info_Title :: string
  Info_Description :: string
  Info_Version :: string

record Operation =
  Operation_Summary :: string
  Operation_Description :: string
  Operation_OperationID :: string
  Operation_Parameters :: "Parameter list"
  Operation_Responses :: "(string \<times> Response) list"

record PathItem =
  PathItem_Get :: "Operation option"
  PathItem_Put :: "Operation option"
  PathItem_Post :: "Operation option"
  PathItem_Delete :: "Operation option"
  PathItem_Options :: "Operation option"
  PathItem_Head :: "Operation option"
  PathItem_Patch :: "Operation option"

record SwaggerSpec =
  Swagger_Swagger :: string
  Swagger_Info :: SwaggerInfo
  Swagger_BasePath :: string
  Swagger_Paths :: "(string \<times> PathItem) list"

definition new_Parameter :: "Parameter \<Rightarrow> heap \<Rightarrow> nat \<times> heap" where
  "new_Parameter p h =
     (next_addr h, h\<lparr>parameters := (parameters h)(next_addr h := p), next_addr := Suc (next_addr h)\<rparr>)"

definition new_Response :: "Response \<Rightarrow> heap \<Rightarrow> nat \<times> heap" where
  "new_Response r h =
     (next_addr h, h\<lparr>responses := (responses h)(next_addr h := r), next_addr := Suc (next_addr h)\<rparr>)"

fun convertParameters :: "Parameter list \<Rightarrow> heap \<Rightarrow> ptr list \<times> heap" where
  "convertParameters [] h = ([], h)"
| "convertParameters (p # params) h =
     (case new_Parameter p h of
        (paramCopy, h') \<Rightarrow>
          (case convertParameters params h' of (result, h'') \<Rightarrow> (Some paramCopy # result, h'')))"

fun convertResponses :: "(string \<times> Response) list \<Rightarrow> heap \<Rightarrow> (string \<times> ptr) list \<times> heap" where
  "convertResponses [] h = ([], h)"
| "convertResponses ((code, r) # rest) h =
     (case new_Response r h of
        (respCopy, h') \<Rightarrow>
          (case convertResponses rest h' of
             (result, h'') \<Rightarrow> ((code, Some respCopy) # result, h'')))"

definition createEndpointFromOperation :: "string \<Rightarrow> string \<Rightarrow> Operation \<Rightarrow> heap \<Rightarrow> Endpoint \<times> heap" where
  "createEndpointFromOperation path method op h =
     (case convertParameters (Operation_Parameters op) h of
        (ps, h1) \<Rightarrow>
          (case convertResponses (Operation_Responses op) h1 of
             (rs, h2) \<Rightarrow>
               (\<lparr>Endpoint_Path = path, Endpoint_Method = method,
                 Endpoint_Summary = Operation_Summary op,
                 Endpoint_Description = Operation_Description op,
                 Endpoint_Parameters = ps, Endpoint_RequestBody = None,
                 Endpoint_Responses = rs\<rparr>, h2)))"

text \<open>
  The seven \<open>if item.X != nil\<close> blocks of the loop body, in the order of the source:
  each pairs the method name with the field it tests.
\<close>

definition methodsOf :: "PathItem \<Rightarrow> (string \<times> Operation option) list" where
  "methodsOf item =
     [(''GET'', PathItem_Get item), (''POST'', PathItem_Post item), (''PUT'', PathItem_Put item),
      (''DELETE'', PathItem_Delete item), (''PATCH'', PathItem_Patch item),
      (''HEAD'', PathItem_Head item), (''OPTIONS'', PathItem_Options item)]"

fun appendOperations ::
  "string \<Rightarrow> (string \<times> Operation option) list \<Rightarrow> Endpoint list \<Rightarrow> heap \<Rightarrow> Endpoint list \<times> heap" where
  "appendOperations path [] endpoints h = (endpoints, h)"
| "appendOperations path ((method, None) # rest) endpoints h = appendOperations path rest endpoints h"
| "appendOperations path ((method, Some op) # rest) endpoints h =
     (case createEndpointFromOperation path method op h of
        (ep, h') \<Rightarrow> appendOperations path rest (endpoints @ [ep]) h')"

fun convertPaths :: "(string \<times> PathItem) list \<Rightarrow> Endpoint list \<Rightarrow> heap \<Rightarrow> Endpoint list \<times> heap" where
  "convertPaths [] endpoints h = (endpoints, h)"
| "convertPaths ((path, item) # paths) endpoints h =
     (case appendOperations path (methodsOf item) endpoints h of
        (endpoints', h') \<Rightarrow> convertPaths paths endpoints' h')"

definition convertSwaggerToAPIDocument :: "SwaggerSpec \<Rightarrow> heap \<Rightarrow> APIDocument \<times> heap" where
  "convertSwaggerToAPIDocument sw h =
     (case convertPaths (Swagger_Paths sw) [] h of
        (endpoints, h') \<Rightarrow>
          (\<lparr>Doc_Title = Info_Title (Swagger_Info sw), Doc_Version = Info_Version (Swagger_Info sw),
            Doc_Description = Info_Description (Swagger_Info sw),
            Doc_Endpoints = endpoints, Doc_Servers = [], Doc_Components = None\<rparr>, h'))"

section \<open>White space\<close>

text \<open>
  \<open>strings.Fields\<close> and \<open>bytes.TrimSpace\<close> split and trim at the runes for which
  \<open>unicode.IsSpace\<close> holds, decoding UTF-8. These are six ASCII bytes and the code
  points U+0085, U+00A0, U+1680, U+2000 to U+200A, U+2028, U+2029, U+202F, U+205F and
  U+3000. A lead byte is never inside a well-formed encoding of another rune, and an
  ill-formed byte is a rune of width one that is no space, so a space rune stands at a
  position exactly when its encoding starts there. \<open>spaceLen\<close> is the width of the
  space rune at the head of the bytes, 0 when there is none.
\<close>

definition asciiSpace :: "char \<Rightarrow> bool" where
  "asciiSpace c = (c = CHR 0x09 \<or> c = CHR 0x0A \<or> c = CHR 0x0B \<or> c = CHR 0x0C \<or> c = CHR 0x0D \<or> c = CHR 0x20)"

fun spaceLen :: "string \<Rightarrow> nat" where
  "spaceLen [] = 0"
| "spaceLen (c # cs) =
     (if asciiSpace c then 1
      else if c = CHR 0xC2 \<and> (take 1 cs = [CHR 0x85] \<or> take 1 cs = [CHR 0xA0]) then 2
      else if c = CHR 0xE1 \<and> take 2 cs = [CHR 0x9A, CHR 0x80] then 3
      else if c = CHR 0xE2 \<and> take 1 cs = [CHR 0x80] \<and>
              (case drop 1 cs of
                 [] \<Rightarrow> False
               | d # _ \<Rightarrow> ((0x80 :: nat) \<le> of_char d \<and> of_char d \<le> (0x8A :: nat)) \<or>
                          d = CHR 0xA8 \<or> d = CHR 0xA9 \<or> d = CHR 0xAF) then 3
      else if c = CHR 0xE2 \<and> take 2 cs = [CHR 0x81, CHR 0x9F] then 3
      else if c = CHR 0xE3 \<and> take 2 cs = [CHR 0x80, CHR 0x80] then 3
      else 0)"

declare spaceLen.simps [simp del]

text \<open>
  \<open>FieldsFrom k field s\<close> scans \<open>s\<close>: \<open>k\<close> bytes of a space rune are still to be
  skipped, and \<open>field\<close> holds the bytes of the field being read.
\<close>

fun FieldsFrom :: "nat \<Rightarrow> string \<Rightarrow> string \<Rightarrow> string list" where
  "FieldsFrom k field [] = (if field = [] then [] else [field])"
| "FieldsFrom (Suc k) field (c # cs) = FieldsFrom k field cs"
| "FieldsFrom 0 field (c # cs) =
     (case spaceLen (c # cs) of
        0 \<Rightarrow> FieldsFrom 0 (field @ [c]) cs
      | Suc k \<Rightarrow> (if field = [] then [] else [field]) @ FieldsFrom k [] cs)"

definition Fields :: "string \<Rightarrow> string list" where
  "Fields s = FieldsFrom 0 [] s"

fun Join :: "string list \<Rightarrow> string \<Rightarrow> string" where
  "Join [] sep = []"
| "Join [x] sep = x"
| "Join (x # y # ys) sep = x @ sep @ Join (y # ys) sep"

definition minifyText :: "string \<Rightarrow> string" where
  "minifyText text = Join (Fields text) '' ''"

fun allSpaceFrom :: "nat \<Rightarrow> string \<Rightarrow> bool" where
  "allSpaceFrom k [] = True"
| "allSpaceFrom (Suc k) (c # cs) = allSpaceFrom k cs"
| "allSpaceFrom 0 (c # cs) =
     (case spaceLen (c # cs) of 0 \<Rightarrow> False | Suc k \<Rightarrow> allSpaceFrom k cs)"

fun TrimLeftFrom :: "nat \<Rightarrow> string \<Rightarrow> string" where
  "TrimLeftFrom k [] = []"
| "TrimLeftFrom (Suc k) (c # cs) = TrimLeftFrom k cs"
| "TrimLeftFrom 0 (c # cs) =
     (case spaceLen (c # cs) of 0 \<Rightarrow> c # cs | Suc k \<Rightarrow> TrimLeftFrom k cs)"

fun TrimRight :: "string \<Rightarrow> string" where
  "TrimRight [] = []"
| "TrimRight (c # cs) = (if allSpaceFrom 0 (c # cs) then [] else c # TrimRight cs)"

definition TrimSpace :: "string \<Rightarrow> string" where
  "TrimSpace s = TrimRight (TrimLeftFrom 0 s)"

section \<open>Rendering\<close>

definition NL :: string where
  "NL = [CHR 0x0A]"

text \<open>
  \<open>strings.ToUpper\<close>: a string of ASCII bytes has its letters a to z replaced; any other
  string is mapped rune by rune through the case tables of package unicode, which
  the model takes as the parameter \<open>unicodeUpper\<close>.
\<close>

definition asciiUpper :: "char \<Rightarrow> char" where
  "asciiUpper c =
     (if (97 :: nat) \<le> of_char c \<and> of_char c \<le> (122 :: nat)
      then char_of (of_char c - (32 :: nat)) else c)"

definition ToUpper :: "(string \<Rightarrow> string) \<Rightarrow> string \<Rightarrow> string" where
  "ToUpper unicodeUpper s =
     (if list_all (\<lambda>c. of_char c < (0x80 :: nat)) s then map asciiUpper s else unicodeUpper s)"

text \<open>The description of an endpoint as lines 324 to 332 print it: \<open>desc\<close>, then its line.\<close>

definition endpointDesc :: "string \<Rightarrow> string" where
  "endpointDesc description =
     (if length (minifyText description) > 20000
      then take 2000 (minifyText description) @ ''...''
      else minifyText description)"

definition descriptionLine :: "string \<Rightarrow> string" where
  "descriptionLine description =
     (if endpointDesc description = [] then ''DESCRIPTION: (None)'' @ NL
      else ''DESCRIPTION: '' @ endpointDesc description @ NL)"

definition parameterLine :: "heap \<Rightarrow> Parameter \<Rightarrow> string" where
  "parameterLine h p =
     ''  - '' @ Parameter_Name p @ '' ('' @
     (if Parameter_Type p \<noteq> [] then Parameter_Type p
      else (case Parameter_Schema p of
              Some s \<Rightarrow> Schema_Type (schemas h s)
            | None \<Rightarrow> ''(unknown)'')) @
     '', '' @ Parameter_In p @ '', required='' @
     (if Parameter_Required p then ''true'' else ''false'') @ '')'' @
     (if Parameter_Description p \<noteq> [] then '' : '' @ Parameter_Description p else []) @ NL"

text \<open>
  The loops over the parameters and the responses read a field of each entry without
  a nil test: a nil entry is a nil pointer dereference.
\<close>

fun renderParameters :: "heap \<Rightarrow> ptr list \<Rightarrow> error + string" where
  "renderParameters h [] = Inr []"
| "renderParameters h (None # ps) = Inl NilDereference"
| "renderParameters h (Some p # ps) =
     (case renderParameters h ps of
        Inl e \<Rightarrow> Inl e
      | Inr out \<Rightarrow> Inr (parameterLine h (parameters h p) @ out))"

fun renderResponses :: "heap \<Rightarrow> (string \<times> ptr) list \<Rightarrow> error + string" where
  "renderResponses h [] = Inr []"
| "renderResponses h ((code, None) # rs) = Inl NilDereference"
| "renderResponses h ((code, Some resp) # rs) =
     (case renderResponses h rs of
        Inl e \<Rightarrow> Inl e
      | Inr out \<Rightarrow>
          Inr (''  - '' @ code @ '': '' @ Response_Description (responses h resp) @ NL @ out))"

definition requestBodyText :: "heap \<Rightarrow> ptr \<Rightarrow> string" where
  "requestBodyText h rb =
     (case rb of
        None \<Rightarrow> ''None''
      | Some b \<Rightarrow>
          if RequestBody_Description (requestBodies h b) \<noteq> []
          then RequestBody_Description (requestBodies h b) else ''None'')"

definition renderEndpoint :: "(string \<Rightarrow> string) \<Rightarrow> heap \<Rightarrow> Endpoint \<Rightarrow> error + string" where
  "renderEndpoint unicodeUpper h ep =
     (case (if length (Endpoint_Parameters ep) = 0 then Inr (''  (None)'' @ NL)
            else renderParameters h (Endpoint_Parameters ep)) of
        Inl e \<Rightarrow> Inl e
      | Inr ps \<Rightarrow>
          (case (if length (Endpoint_Responses ep) = 0 then Inr (''  (None)'' @ NL)
                 else renderResponses h (Endpoint_Responses ep)) of
             Inl e \<Rightarrow> Inl e
           | Inr rs \<Rightarrow>
               Inr (''ENDPOINT: '' @ ToUpper unicodeUpper (Endpoint_Method ep) @ '' '' @
                      Endpoint_Path ep @ NL @
                    ''SUMMARY: '' @ Endpoint_Summary ep @ NL @
                    descriptionLine (Endpoint_Description ep) @
                    ''PARAMETERS:'' @ NL @ ps @
                    ''REQUEST BODY: '' @ requestBodyText h (Endpoint_RequestBody ep) @ NL @
                    ''RESPONSES:'' @ NL @ rs @
                    ''END'' @ NL)))"

fun renderEndpoints :: "(string \<Rightarrow> string) \<Rightarrow> heap \<Rightarrow> Endpoint list \<Rightarrow> error + string" where
  "renderEndpoints unicodeUpper h [] = Inr []"
| "renderEndpoints unicodeUpper h (ep # eps) =
     (case renderEndpoint unicodeUpper h ep of
        Inl e \<Rightarrow> Inl e
      | Inr out \<Rightarrow>
          (case renderEndpoints unicodeUpper h eps of
             Inl e \<Rightarrow> Inl e
           | Inr outs \<Rightarrow> Inr (out @ outs)))"

definition RenderText :: "(string \<Rightarrow> string) \<Rightarrow> APIDocument \<Rightarrow> heap \<Rightarrow> error + string" where
  "RenderText unicodeUpper doc h =
     (case renderEndpoints unicodeUpper h (Doc_Endpoints doc) of
        Inl e \<Rightarrow> Inl e
      | Inr body \<Rightarrow>
          Inr (''API: '' @ Doc_Title doc @ '' (v'' @ Doc_Version doc @ '')'' @ NL @ NL @
               ''DESCRIPTION:'' @ NL @
               (if Doc_Description doc \<noteq> [] then Doc_Description doc
                else ''(None or your description here)'') @
               NL @ NL @ body))"

section \<open>Loading\<close>

text \<open>
  The file system and the YAML and JSON decoders are outside the package: the model
  takes what \<open>ioutil.ReadFile\<close> returned as an argument, and the decoders as a record of
  functions. \<open>hasSwaggerKey\<close> is the decoding into the generic map followed by the
  test for the key \<open>swagger\<close>; the other four decode into the typed structures, placing
  the objects they build in the heap.
\<close>

record decoders =
  hasSwaggerKey :: "string \<Rightarrow> error + bool"
  jsonSwagger :: "string \<Rightarrow> heap \<Rightarrow> error + SwaggerSpec \<times> heap"
  yamlSwagger :: "string \<Rightarrow> heap \<Rightarrow> error + SwaggerSpec \<times> heap"
  jsonDocument :: "string \<Rightarrow> heap \<Rightarrow> error + APIDocument \<times> heap"
  yamlDocument :: "string \<Rightarrow> heap \<Rightarrow> error + APIDocument \<times> heap"

text \<open>The value \<open>APIDocument{}\<close>: every field is the zero value of its type.\<close>

definition zeroDocument :: APIDocument where
  "zeroDocument =
     \<lparr>Doc_Title = [], Doc_Version = [], Doc_Description = [], Doc_Endpoints = [],
      Doc_Servers = [], Doc_Components = None\<rparr>"

definition LoadAPISpec :: "decoders \<Rightarrow> error + string \<Rightarrow> heap \<Rightarrow> error + APIDocument \<times> heap" where
  "LoadAPISpec dec file h =
     (case file of
        Inl err \<Rightarrow> Inl err
      | Inr data \<Rightarrow>
          if length (TrimSpace data) = 0 then Inr (zeroDocument, h)
          else
            (case hasSwaggerKey dec data of
               Inl err \<Rightarrow> Inl err
             | Inr isSwagger \<Rightarrow>
                 if isSwagger
                 then (case (if hd (TrimSpace data) = CHR ''{'' then jsonSwagger dec data h
                             else yamlSwagger dec data h) of
                         Inl err \<Rightarrow> Inl err
                       | Inr (swaggerSpec, h') \<Rightarrow> Inr (convertSwaggerToAPIDocument swaggerSpec h'))
                 else (if hd (TrimSpace data) = CHR ''{'' then jsonDocument dec data h
                       else yamlDocument dec data h)))"

section \<open>Notions used in the statements\<close>

text \<open>
  The operations a Swagger document declares, as triples of path, method name and
  operation: for every path in turn, the operations present among the seven fields of
  its path item.
\<close>

fun presentOperations :: "string \<Rightarrow> (string \<times> Operation option) list \<Rightarrow> (string \<times> string \<times> Operation) list" where
  "presentOperations path [] = []"
| "presentOperations path ((method, None) # rest) = presentOperations path rest"
| "presentOperations path ((method, Some op) # rest) = (path, method, op) # presentOperations path rest"

fun declaredOperations :: "(string \<times> PathItem) list \<Rightarrow> (string \<times> string \<times> Operation) list" where
  "declaredOperations [] = []"
| "declaredOperations ((path, item) # paths) =
     presentOperations path (methodsOf item) @ declaredOperations paths"

text \<open>
  The seven recognised methods, each with the field of the path item that declares
  it; any other name declares nothing.
\<close>

definition operationOf :: "PathItem \<Rightarrow> string \<Rightarrow> Operation option" where
  "operationOf item m =
     (if m = ''GET'' then PathItem_Get item
      else if m = ''PUT'' then PathItem_Put item
      else if m = ''POST'' then PathItem_Post item
      else if m = ''DELETE'' then PathItem_Delete item
      else if m = ''OPTIONS'' then PathItem_Options item
      else if m = ''HEAD'' then PathItem_Head item
      else if m = ''PATCH'' then PathItem_Patch item
      else None)"

text \<open>
  \<open>fromOperation h ep (path, method, op)\<close>: the endpoint has the path and the method,
  the summary and the description of the operation, parameter slots that point to the
  operation's parameters and response entries that point, under the same codes, to its
  responses (read in the heap \<open>h\<close>), and no request body.
\<close>

definition fromOperation :: "heap \<Rightarrow> Endpoint \<Rightarrow> string \<times> string \<times> Operation \<Rightarrow> bool" where
  "fromOperation h ep t =
     (case t of (path, method, op) \<Rightarrow>
        Endpoint_Path ep = path \<and> Endpoint_Method ep = method \<and>
        Endpoint_Summary ep = Operation_Summary op \<and>
        Endpoint_Description ep = Operation_Description op \<and>
        map (map_option (parameters h)) (Endpoint_Parameters ep) = map Some (Operation_Parameters op) \<and>
        map (\<lambda>(code, r). (code, map_option (responses h) r)) (Endpoint_Responses ep) =
          map (\<lambda>(code, r). (code, Some r)) (Operation_Responses op) \<and>
        Endpoint_RequestBody ep = None)"

definition pathMethod :: "string \<times> string \<times> Operation \<Rightarrow> string \<times> string" where
  "pathMethod t = (fst t, fst (snd t))"

text \<open>
  A heap extends another when it has the same parameters and responses below the
  other's allocation frontier; a pointer is below a heap when it is nil or allocated in
  it; an endpoint is owned by a heap that has allocated all its slots.
\<close>

definition extends :: "heap \<Rightarrow> heap \<Rightarrow> bool" where
  "extends h h' =
     (next_addr h \<le> next_addr h' \<and>
      (\<forall>a < next_addr h. parameters h' a = parameters h a \<and> responses h' a = responses h a))"

definition below :: "heap \<Rightarrow> ptr \<Rightarrow> bool" where
  "below h p = (case p of None \<Rightarrow> True | Some a \<Rightarrow> a < next_addr h)"

definition owned :: "heap \<Rightarrow> Endpoint \<Rightarrow> bool" where
  "owned h ep = (list_all (below h) (Endpoint_Parameters ep) \<and>
                 list_all (\<lambda>(code, r). below h r) (Endpoint_Responses ep))"

text \<open>
  A descriptor is absent from a table when it is not empty and the table has no entry
  under its name.
\<close>

definition absent :: "(string \<times> ptr) list \<Rightarrow> string \<Rightarrow> string \<Rightarrow> bool" where
  "absent table componentType ref =
     (ref \<noteq> [] \<and> map_of table (extractNameFromRef ref componentType) = None)"

text \<open>
  An object is free of references when a second walk would find nothing to resolve in
  it: a schema with an empty descriptor; a parameter with an empty descriptor and such a
  schema (or none); a media type with such a schema; a request body or a response with an
  empty descriptor and such media types. A nil pointer is free of references, and an
  endpoint is when its slots are. The components are plain when the schemas, the
  parameters and the responses of the table are free of references and its request
  bodies have an empty descriptor (the media types of a request body component may
  still carry schema descriptors).
\<close>

definition refFreeSchema :: "heap \<Rightarrow> ptr \<Rightarrow> bool" where
  "refFreeSchema h s = (case s of None \<Rightarrow> True | Some a \<Rightarrow> Schema_Ref (schemas h a) = [])"

definition refFreeParameter :: "heap \<Rightarrow> ptr \<Rightarrow> bool" where
  "refFreeParameter h p =
     (case p of
        None \<Rightarrow> True
      | Some a \<Rightarrow> Parameter_Ref (parameters h a) = [] \<and>
                  refFreeSchema h (Parameter_Schema (parameters h a)))"

definition refFreeMediaType :: "heap \<Rightarrow> ptr \<Rightarrow> bool" where
  "refFreeMediaType h mt =
     (case mt of None \<Rightarrow> True | Some m \<Rightarrow> refFreeSchema h (MediaType_Schema (mediaTypes h m)))"





text \<open>
  A slot is resolved from a descriptor when it holds the pointer stored in the table
  under the descriptor's name, and what it held before when the descriptor is empty.
  The descriptors are read in the heap \<open>h\<close> of before the call.
\<close>

definition resolvedSlot :: "(string \<times> ptr) list \<Rightarrow> string \<Rightarrow> string \<Rightarrow> ptr \<Rightarrow> ptr \<Rightarrow> bool" where
  "resolvedSlot table componentType ref before after =
     (if ref \<noteq> [] then map_of table (extractNameFromRef ref componentType) = Some after
      else after = before)"

definition resolvedSchema :: "Components \<Rightarrow> heap \<Rightarrow> ptr \<Rightarrow> ptr \<Rightarrow> bool" where
  "resolvedSchema c h before after =
     (case before of
        None \<Rightarrow> after = None
      | Some s \<Rightarrow>
          resolvedSlot (Components_Schemas c) ''schemas'' (Schema_Ref (schemas h s)) before after)"




text \<open>
  The schema pointer of a parameter or of a media type is settled in the heap \<open>h'\<close>
  when it is resolved from the descriptor the schema carried in \<open>h\<close>: it holds the
  schema stored in the table, or what it held when there was no descriptor. The schema
  pointers of a content map are settled when those of its media types are.
\<close>

definition settledParameter :: "Components \<Rightarrow> heap \<Rightarrow> heap \<Rightarrow> ptr \<Rightarrow> bool" where
  "settledParameter c h h' p =
     (case p of
        None \<Rightarrow> True
      | Some a \<Rightarrow>
          resolvedSchema c h (Parameter_Schema (parameters h a)) (Parameter_Schema (parameters h' a)))"

definition settledMediaType :: "Components \<Rightarrow> heap \<Rightarrow> heap \<Rightarrow> ptr \<Rightarrow> bool" where
  "settledMediaType c h h' mt =
     (case mt of
        None \<Rightarrow> True
      | Some m \<Rightarrow>
          resolvedSchema c h (MediaType_Schema (mediaTypes h m)) (MediaType_Schema (mediaTypes h' m)))"







text \<open>
  Two notions for the proofs. A heap advances another when schemas, request bodies and
  responses are the same, every parameter has kept its descriptor, and the parameters and
  media types that were free of references still are. A step from \<open>h1\<close> to \<open>h2\<close> keeps
  what is settled with respect to \<open>h\<close>.
\<close>

definition advances :: "heap \<Rightarrow> heap \<Rightarrow> bool" where
  "advances h h' =
     (schemas h' = schemas h \<and> requestBodies h' = requestBodies h \<and> responses h' = responses h \<and>
      (\<forall>a. Parameter_Ref (parameters h' a) = Parameter_Ref (parameters h a)) \<and>
      (\<forall>p. refFreeParameter h p \<longrightarrow> refFreeParameter h' p) \<and>
      (\<forall>m. refFreeMediaType h m \<longrightarrow> refFreeMediaType h' m))"

definition keeps :: "Components \<Rightarrow> heap \<Rightarrow> heap \<Rightarrow> heap \<Rightarrow> bool" where
  "keeps c h h1 h2 =
     ((\<forall>p. settledParameter c h h1 p \<longrightarrow> settledParameter c h h2 p) \<and>
      (\<forall>m. settledMediaType c h h1 m \<longrightarrow> settledMediaType c h h2 m))"

section \<open>Example documents\<close>

text \<open>The zero values of the structures, and a heap that holds zero values only.\<close>

definition zeroSchema :: Schema where
  "zeroSchema = \<lparr>Schema_Type = [], Schema_Ref = []\<rparr>"

definition zeroMediaType :: MediaType where
  "zeroMediaType = \<lparr>MediaType_Schema = None\<rparr>"

definition zeroParameter :: Parameter where
  "zeroParameter =
     \<lparr>Parameter_Name = [], Parameter_In = [], Parameter_Required = False, Parameter_Type = [],
      Parameter_Schema = None, Parameter_Description = [], Parameter_Ref = []\<rparr>"

definition zeroRequestBody :: RequestBody where
  "zeroRequestBody = \<lparr>RequestBody_Description = [], RequestBody_Content = [], RequestBody_Ref = []\<rparr>"

definition zeroResponse :: Response where
  "zeroResponse = \<lparr>Response_Description = [], Response_Content = [], Response_Ref = []\<rparr>"

definition zeroEndpoint :: Endpoint where
  "zeroEndpoint =
     \<lparr>Endpoint_Path = [], Endpoint_Method = [], Endpoint_Summary = [], Endpoint_Description = [],
      Endpoint_Parameters = [], Endpoint_RequestBody = None, Endpoint_Responses = []\<rparr>"

definition zeroComponents :: Components where
  "zeroComponents =
     \<lparr>Components_Schemas = [], Components_Parameters = [], Components_RequestBodies = [],
      Components_Responses = []\<rparr>"

definition zeroHeap :: heap where
  "zeroHeap =
     \<lparr>schemas = (\<lambda>_. zeroSchema), mediaTypes = (\<lambda>_. zeroMediaType),
      parameters = (\<lambda>_. zeroParameter), requestBodies = (\<lambda>_. zeroRequestBody),
      responses = (\<lambda>_. zeroResponse), next_addr = 0\<rparr>"

text \<open>
  A document without a Components table whose only parameter slot still carries a
  reference descriptor.
\<close>

definition danglingHeap :: heap where
  "danglingHeap =
     zeroHeap\<lparr>parameters := (parameters zeroHeap)
        (0 := zeroParameter\<lparr>Parameter_Ref := ''#/components/parameters/Missing''\<rparr>)\<rparr>"

definition danglingDoc :: APIDocument where
  "danglingDoc = zeroDocument\<lparr>Doc_Endpoints := [zeroEndpoint\<lparr>Endpoint_Parameters := [Some 0]\<rparr>]\<rparr>"

text \<open>
  A parameter whose descriptor is the bare name \<open>Page\<close>, and a Components table that
  has a parameter under that name.
\<close>

definition bareNameHeap :: heap where
  "bareNameHeap =
     zeroHeap\<lparr>parameters := (parameters zeroHeap)
        (0 := zeroParameter\<lparr>Parameter_Ref := ''Page''\<rparr>,
         1 := zeroParameter\<lparr>Parameter_Name := ''page'', Parameter_In := ''query'',
                             Parameter_Type := ''integer''\<rparr>)\<rparr>"

definition bareNameDoc :: APIDocument where
  "bareNameDoc =
     zeroDocument\<lparr>Doc_Endpoints := [zeroEndpoint\<lparr>Endpoint_Parameters := [Some 0]\<rparr>],
                  Doc_Components := Some (zeroComponents\<lparr>Components_Parameters := [(''Page'', Some 1)]\<rparr>)\<rparr>"

text \<open>Decoders that reject every input.\<close>

definition failingDecoders :: decoders where
  "failingDecoders =
     \<lparr>hasSwaggerKey = (\<lambda>data. Inl (External ''yaml'')),
      jsonSwagger = (\<lambda>data h. Inl (External ''json'')),
      yamlSwagger = (\<lambda>data h. Inl (External ''yaml'')),
      jsonDocument = (\<lambda>data h. Inl (External ''json'')),
      yamlDocument = (\<lambda>data h. Inl (External ''yaml''))\<rparr>"

text \<open>
  A document as the JSON text \<open>{"title":"T","version":"1","endpoints":[{"path":"/x",
  "method":"get","parameters":[null]}]}\<close> decodes: one endpoint whose only parameter
  slot is nil.
\<close>

definition nilSlotDoc :: APIDocument where
  "nilSlotDoc =
     zeroDocument\<lparr>Doc_Title := ''T'', Doc_Version := ''1'',
       Doc_Endpoints := [zeroEndpoint\<lparr>Endpoint_Path := ''/x'', Endpoint_Method := ''get'',
                                      Endpoint_Parameters := [None]\<rparr>]\<rparr>"

text \<open>
  A Swagger document with two paths: \<open>/x\<close> declares GET (one parameter, one response)
  and DELETE, \<open>/y\<close> declares PATCH.
\<close>

definition zeroOperation :: Operation where
  "zeroOperation =
     \<lparr>Operation_Summary = [], Operation_Description = [], Operation_OperationID = [],
      Operation_Parameters = [], Operation_Responses = []\<rparr>"

definition zeroPathItem :: PathItem where
  "zeroPathItem =
     \<lparr>PathItem_Get = None, PathItem_Put = None, PathItem_Post = None, PathItem_Delete = None,
      PathItem_Options = None, PathItem_Head = None, PathItem_Patch = None\<rparr>"

definition getX :: Operation where
  "getX =
     zeroOperation\<lparr>Operation_Summary := ''S'',
       Operation_Parameters :=
         [zeroParameter\<lparr>Parameter_Name := ''id'', Parameter_In := ''query'',
                          Parameter_Type := ''string''\<rparr>],
       Operation_Responses := [(''200'', zeroResponse\<lparr>Response_Description := ''OK''\<rparr>)]\<rparr>"

definition exampleSwagger :: SwaggerSpec where
  "exampleSwagger =
     \<lparr>Swagger_Swagger = ''2.0'',
      Swagger_Info = \<lparr>Info_Title = ''T'', Info_Description = [], Info_Version = ''1''\<rparr>,
      Swagger_BasePath = ''/v1'',
      Swagger_Paths =
        [(''/x'', zeroPathItem\<lparr>PathItem_Get := Some getX, PathItem_Delete := Some zeroOperation\<rparr>),
         (''/y'', zeroPathItem\<lparr>PathItem_Patch := Some zeroOperation\<rparr>)]\<rparr>"

definition convertedExample :: "APIDocument \<times> heap" where
  "convertedExample = convertSwaggerToAPIDocument exampleSwagger zeroHeap"

text \<open>
  A document whose parameter slot, request body and response entry each carry a
  descriptor of a component (at address 1 of its table) that in turn holds a schema
  descriptor: the parameter \<open>P\<close> directly, the request body \<open>B\<close> and the response \<open>R\<close>
  in their content. The schema \<open>S\<close> is at address 1.
\<close>

definition staleHeap :: heap where
  "staleHeap =
     zeroHeap\<lparr>
       schemas := (schemas zeroHeap)
         (0 := zeroSchema\<lparr>Schema_Ref := ''#/components/schemas/S''\<rparr>,
          1 := zeroSchema\<lparr>Schema_Type := ''string''\<rparr>,
          2 := zeroSchema\<lparr>Schema_Ref := ''#/components/schemas/S''\<rparr>,
          3 := zeroSchema\<lparr>Schema_Ref := ''#/components/schemas/S''\<rparr>),
       mediaTypes := (mediaTypes zeroHeap)
         (0 := \<lparr>MediaType_Schema = Some 2\<rparr>, 1 := \<lparr>MediaType_Schema = Some 3\<rparr>),
       parameters := (parameters zeroHeap)
         (0 := zeroParameter\<lparr>Parameter_Ref := ''#/components/parameters/P''\<rparr>,
          1 := zeroParameter\<lparr>Parameter_Name := ''p'', Parameter_In := ''query'',
                              Parameter_Schema := Some 0\<rparr>),
       requestBodies := (requestBodies zeroHeap)
         (0 := zeroRequestBody\<lparr>RequestBody_Ref := ''#/components/requestBodies/B''\<rparr>,
          1 := zeroRequestBody\<lparr>RequestBody_Description := ''body'',
                                RequestBody_Content := [(''application/json'', Some 1)]\<rparr>),
       responses := (responses zeroHeap)
         (0 := zeroResponse\<lparr>Response_Ref := ''#/components/responses/R''\<rparr>,
          1 := zeroResponse\<lparr>Response_Description := ''OK'',
                              Response_Content := [(''application/json'', Some 0)]\<rparr>)\<rparr>"

definition staleDoc :: APIDocument where
  "staleDoc =
     zeroDocument\<lparr>
       Doc_Endpoints :=
         [zeroEndpoint\<lparr>Endpoint_Parameters := [Some 0], Endpoint_RequestBody := Some 0,
                        Endpoint_Responses := [(''200'', Some 0)]\<rparr>],
       Doc_Components :=
         Some \<lparr>Components_Schemas = [(''S'', Some 1)], Components_Parameters = [(''P'', Some 1)],
               Components_RequestBodies = [(''B'', Some 1)],
               Components_Responses = [(''R'', Some 1)]\<rparr>\<rparr>"

text \<open>
  A Components table with the parameter \<open>Page\<close> (address 2) and the schema \<open>S\<close>
  (address 6), and a heap with parameters that refer to \<open>Page\<close> (address 0), to the
  absent \<open>Missing\<close> (address 5) and \<open>AlsoMissing\<close> (address 3), and one (address 4)
  whose schema carries the descriptor of \<open>S\<close>. Two documents of three endpoints over
  them.
\<close>

definition pageComponents :: Components where
  "pageComponents =
     zeroComponents\<lparr>Components_Schemas := [(''S'', Some 6)],
                    Components_Parameters := [(''Page'', Some 2)]\<rparr>"

definition missHeap :: heap where
  "missHeap =
     zeroHeap\<lparr>
       schemas := (schemas zeroHeap)
         (0 := zeroSchema\<lparr>Schema_Ref := ''#/components/schemas/S''\<rparr>,
          6 := zeroSchema\<lparr>Schema_Type := ''string''\<rparr>),
       parameters := (parameters zeroHeap)
         (0 := zeroParameter\<lparr>Parameter_Ref := ''#/components/parameters/Page''\<rparr>,
          5 := zeroParameter\<lparr>Parameter_Ref := ''#/components/parameters/Missing''\<rparr>,
          2 := zeroParameter\<lparr>Parameter_Name := ''page'', Parameter_In := ''query'',
                              Parameter_Type := ''integer''\<rparr>,
          3 := zeroParameter\<lparr>Parameter_Ref := ''#/components/parameters/AlsoMissing''\<rparr>,
          4 := zeroParameter\<lparr>Parameter_Name := ''q'', Parameter_In := ''query'',
                              Parameter_Schema := Some 0\<rparr>)\<rparr>"

definition firstMissDoc :: APIDocument where
  "firstMissDoc =
     zeroDocument\<lparr>
       Doc_Endpoints :=
         [zeroEndpoint\<lparr>Endpoint_Path := ''/a'', Endpoint_Parameters := [Some 0]\<rparr>,
          zeroEndpoint\<lparr>Endpoint_Path := ''/b'', Endpoint_Parameters := [Some 5]\<rparr>,
          zeroEndpoint\<lparr>Endpoint_Path := ''/c'', Endpoint_Parameters := [Some 3]\<rparr>],
       Doc_Components := Some pageComponents\<rparr>"

definition partialDoc :: APIDocument where
  "partialDoc =
     zeroDocument\<lparr>
       Doc_Endpoints :=
         [zeroEndpoint\<lparr>Endpoint_Path := ''/a'', Endpoint_Parameters := [Some 4]\<rparr>,
          zeroEndpoint\<lparr>Endpoint_Path := ''/b'', Endpoint_Parameters := [Some 0, Some 5]\<rparr>,
          zeroEndpoint\<lparr>Endpoint_Path := ''/c'', Endpoint_Parameters := [Some 3]\<rparr>],
       Doc_Components := Some pageComponents\<rparr>"

text \<open>
  The same heap with a parameter (address 8) that refers to \<open>Page\<close> and whose schema
  (address 7) carries the descriptor of the absent schema \<open>Gone\<close>, and a document over
  it.
\<close>

definition schemaMissHeap :: heap where
  "schemaMissHeap =
     missHeap\<lparr>
       schemas := (schemas missHeap)
         (7 := zeroSchema\<lparr>Schema_Ref := ''#/components/schemas/Gone''\<rparr>),
       parameters := (parameters missHeap)
         (8 := zeroParameter\<lparr>Parameter_Ref := ''#/components/parameters/Page'',
                              Parameter_Schema := Some 7\<rparr>)\<rparr>"

definition schemaMissDoc :: APIDocument where
  "schemaMissDoc =
     zeroDocument\<lparr>
       Doc_Endpoints :=
         [zeroEndpoint\<lparr>Endpoint_Path := ''/a'', Endpoint_Parameters := [Some 4]\<rparr>,
          zeroEndpoint\<lparr>Endpoint_Path := ''/b'', Endpoint_Parameters := [Some 0, Some 8, Some 5]\<rparr>,
          zeroEndpoint\<lparr>Endpoint_Path := ''/c'', Endpoint_Parameters := [Some 3]\<rparr>],
       Doc_Components := Some pageComponents\<rparr>"

text \<open>
  A document whose request body carries the descriptor of the component \<open>B\<close> and, in
  its own content, a schema descriptor of the absent name \<open>Missing\<close>.
\<close>

definition hiddenMissComponents :: Components where
  "hiddenMissComponents = zeroComponents\<lparr>Components_RequestBodies := [(''B'', Some 7)]\<rparr>"

definition hiddenMissHeap :: heap where
  "hiddenMissHeap =
     zeroHeap\<lparr>
       schemas := (schemas zeroHeap)
         (0 := zeroSchema\<lparr>Schema_Ref := ''#/components/schemas/Missing''\<rparr>),
       mediaTypes := (mediaTypes zeroHeap)(0 := \<lparr>MediaType_Schema = Some 0\<rparr>),
       requestBodies := (requestBodies zeroHeap)
         (0 := zeroRequestBody\<lparr>RequestBody_Ref := ''#/components/requestBodies/B'',
                                RequestBody_Content := [(''application/json'', Some 0)]\<rparr>,
          7 := zeroRequestBody\<lparr>RequestBody_Description := ''body''\<rparr>)\<rparr>"

definition hiddenMissDoc :: APIDocument where
  "hiddenMissDoc =
     zeroDocument\<lparr>
       Doc_Endpoints := [zeroEndpoint\<lparr>Endpoint_Path := ''/a'', Endpoint_RequestBody := Some 0\<rparr>],
       Doc_Components := Some hiddenMissComponents\<rparr>"







text \<open>
  Two documents with one endpoint each: its description is 20001 letters in the
  first, and the letter a, 20000 blanks and the letter b in the second.
\<close>

definition longDescriptionDoc :: APIDocument where
  "longDescriptionDoc =
     zeroDocument\<lparr>Doc_Endpoints :=
       [zeroEndpoint\<lparr>Endpoint_Description := replicate 20001 (CHR ''a'')\<rparr>]\<rparr>"

definition blankDescriptionDoc :: APIDocument where
  "blankDescriptionDoc =
     zeroDocument\<lparr>Doc_Endpoints :=
       [zeroEndpoint\<lparr>Endpoint_Description := ''a'' @ replicate 20000 (CHR '' '') @ ''b''\<rparr>]\<rparr>"

section \<open>Properties of reference resolution\<close>

lemma set_Parameter_Schema_same [simp]:
  "set_Parameter_Schema a (Parameter_Schema (parameters h a)) h = h"
  by (simp add: set_Parameter_Schema_def)

lemma set_MediaType_Schema_same [simp]:
  "set_MediaType_Schema m (MediaType_Schema (mediaTypes h m)) h = h"
  by (simp add: set_MediaType_Schema_def)

lemma set_Parameter_Schema_unchanged:
  "Parameter_Schema (parameters h a) = s \<Longrightarrow> set_Parameter_Schema a s h = h"
  using set_Parameter_Schema_same [of a h] by simp

lemma set_MediaType_Schema_unchanged:
  "MediaType_Schema (mediaTypes h m) = s \<Longrightarrow> set_MediaType_Schema m s h = h"
  using set_MediaType_Schema_same [of m h] by simp

text \<open>
  Claim C4. A document that carries no Components table is left as it is and the call
  returns a nil error, whatever reference descriptors the document still holds.
\<close>

theorem ResolveReferences_no_components:
  "Doc_Components doc = None \<Longrightarrow> ResolveReferences doc h = (None, doc, h)"
  by (simp add: ResolveReferences_def)

theorem ResolveReferences_no_components_witness:
  "Doc_Components danglingDoc = None \<and>
   Endpoint_Parameters (hd (Doc_Endpoints danglingDoc)) = [Some 0] \<and>
   Parameter_Ref (parameters danglingHeap 0) = ''#/components/parameters/Missing'' \<and>
   ResolveReferences danglingDoc danglingHeap = (None, danglingDoc, danglingHeap)"
  using ResolveReferences_no_components [of danglingDoc danglingHeap]
  by (simp add: danglingDoc_def danglingHeap_def zeroDocument_def zeroEndpoint_def zeroHeap_def)

lemma lookupRef_unprefixed:
  assumes "\<not> HasPrefix ref (''#/components/'' @ componentType @ ''/'')"
    and "map_of table ref = Some resolved"
  shows "lookupRef kind componentType table ref = Inr resolved"
  using assms by (simp add: lookupRef_def extractNameFromRef_def TrimPrefix_def)

text \<open>
  Claim C9. The syntax of a descriptor is never checked. A descriptor that does not
  start with \<open>#/components/parameters/\<close> is itself the key looked up in the parameter
  table, and when the table has that key the slot is resolved to the value stored there:
  the call succeeds. (The lemma before states the same for the lookup in any of the four
  tables.)
\<close>

theorem unvalidated_ref_resolves:
  assumes "Doc_Components doc = Some c"
    and "Doc_Endpoints doc = [ep]"
    and "Endpoint_Parameters ep = [Some a]"
    and "Endpoint_RequestBody ep = None"
    and "Endpoint_Responses ep = []"
    and "Parameter_Ref (parameters h a) = ref"
    and "ref \<noteq> []"
    and "Parameter_Schema (parameters h a) = None"
    and "\<not> HasPrefix ref ''#/components/parameters/''"
    and "map_of (Components_Parameters c) ref = Some resolved"
  shows "extractNameFromRef ref ''parameters'' = ref \<and>
         ResolveReferences doc h =
           (None, doc\<lparr>Doc_Endpoints := [ep\<lparr>Endpoint_Parameters := [resolved]\<rparr>]\<rparr>, h)"
proof -
  have name: "extractNameFromRef ref ''parameters'' = ref"
    using assms(9) by (simp add: extractNameFromRef_def TrimPrefix_def)
  have look: "lookupRef ''parameter'' ''parameters'' (Components_Parameters c) ref = Inr resolved"
    using assms(10) name by (simp add: lookupRef_def)
  have ps: "resolveParameters c [Some a] h = (None, [resolved], h)"
    using assms(6,7,8) look by (simp add: resolveSchema_def set_Parameter_Schema_unchanged)
  have "resolveEndpoint c ep h = (None, ep\<lparr>Endpoint_Parameters := [resolved]\<rparr>, h)"
    using assms(3,4,5) ps by (simp add: resolveEndpoint_def resolveRequestBody_def)
  then show ?thesis
    using assms(1,2) name by (simp add: ResolveReferences_def)
qed

theorem unvalidated_ref_resolves_witness:
  "\<not> HasPrefix ''Page'' ''#/components/parameters/'' \<and>
   ResolveReferences bareNameDoc bareNameHeap =
     (None, bareNameDoc\<lparr>Doc_Endpoints := [zeroEndpoint\<lparr>Endpoint_Parameters := [Some 1]\<rparr>]\<rparr>,
      bareNameHeap)"
  using unvalidated_ref_resolves [of bareNameDoc
      "zeroComponents\<lparr>Components_Parameters := [(''Page'', Some 1)]\<rparr>"
      "zeroEndpoint\<lparr>Endpoint_Parameters := [Some 0]\<rparr>" 0 bareNameHeap "''Page''" "Some 1"]
  by (simp add: bareNameDoc_def bareNameHeap_def zeroDocument_def zeroEndpoint_def zeroHeap_def
      zeroParameter_def zeroComponents_def HasPrefix_def)

lemma extract_simps:
  "extractNameFromRef ''#/components/schemas/S'' ''schemas'' = ''S''"
  "extractNameFromRef ''#/components/parameters/P'' ''parameters'' = ''P''"
  "extractNameFromRef ''#/components/requestBodies/B'' ''requestBodies'' = ''B''"
  "extractNameFromRef ''#/components/responses/R'' ''responses'' = ''R''"
  by (simp_all add: extractNameFromRef_def TrimPrefix_def HasPrefix_def)

text \<open>
  Claim C2. On the example document the call succeeds and the three slots hold the
  components. The schema of the parameter now in the slot (address 1) is still the
  object that carries the descriptor (address 0), and so is the schema of the content
  entry of the response now under the code (media type 0, schema 2): the nested
  resolution worked on the objects that were replaced. The request body, whose field is
  read again after the replacement, has the schema of its content entry (media type 1)
  resolved to the component \<open>S\<close> (address 1).
\<close>

theorem nested_schema_resolution_on_stale_object:
  "ResolveReferences staleDoc staleHeap =
     (None,
      staleDoc\<lparr>Doc_Endpoints :=
        [zeroEndpoint\<lparr>Endpoint_Parameters := [Some 1], Endpoint_RequestBody := Some 1,
                       Endpoint_Responses := [(''200'', Some 1)]\<rparr>]\<rparr>,
      set_MediaType_Schema 1 (Some 1) staleHeap) \<and>
   Parameter_Schema (parameters (set_MediaType_Schema 1 (Some 1) staleHeap) 1) = Some 0 \<and>
   Schema_Ref (schemas (set_MediaType_Schema 1 (Some 1) staleHeap) 0) = ''#/components/schemas/S'' \<and>
   Response_Content (responses (set_MediaType_Schema 1 (Some 1) staleHeap) 1) =
     [(''application/json'', Some 0)] \<and>
   MediaType_Schema (mediaTypes (set_MediaType_Schema 1 (Some 1) staleHeap) 0) = Some 2 \<and>
   Schema_Ref (schemas (set_MediaType_Schema 1 (Some 1) staleHeap) 2) = ''#/components/schemas/S'' \<and>
   RequestBody_Content (requestBodies (set_MediaType_Schema 1 (Some 1) staleHeap) 1) =
     [(''application/json'', Some 1)] \<and>
   MediaType_Schema (mediaTypes (set_MediaType_Schema 1 (Some 1) staleHeap) 1) = Some 1"
  by (simp add: ResolveReferences_def staleDoc_def zeroDocument_def zeroEndpoint_def
      resolveEndpoint_def resolveRequestBody_def resolveSchema_def lookupRef_def extract_simps
      staleHeap_def zeroHeap_def zeroSchema_def zeroParameter_def zeroRequestBody_def
      zeroResponse_def set_MediaType_Schema_def set_Parameter_Schema_unchanged)

subsection \<open>Failure\<close>

lemma doPrintfFrom_plain: "CHR ''%'' \<notin> set s \<Longrightarrow> doPrintfFrom 0 s = s"
  by (induction s) auto

lemma Errorf_plain: "CHR ''%'' \<notin> set s \<Longrightarrow> Errorf s = Error s"
  by (simp add: Errorf_def doPrintfFrom_plain)

text \<open>
  A descriptor with a percent sign is read as a format: the message is not the text
  that was handed over.
\<close>

lemma Errorf_percent:
  "Errorf ''unresolved schema reference: #/components/schemas/100%d'' =
   Error ''unresolved schema reference: #/components/schemas/100%!d(MISSING)''"
  by (simp add: Errorf_def verb_def isFlag_def argNumber_def verbWidth_def verbPrecision_def
      parsenum_def isDigit_def verbRune_def)

lemma resolveEndpoints_append:
  "resolveEndpoints c (pre @ eps) h =
     (case resolveEndpoints c pre h of
        (Some e, pre', h1) \<Rightarrow> (Some e, pre' @ eps, h1)
      | (None, pre', h1) \<Rightarrow>
          (case resolveEndpoints c eps h1 of (e, eps', h2) \<Rightarrow> (e, pre' @ eps', h2)))"
  by (induction pre arbitrary: h) (auto split: prod.splits option.splits)

lemma resolveParameters_append:
  "resolveParameters c (ps1 @ ps2) h =
     (case resolveParameters c ps1 h of
        (Some e, ps1', h1) \<Rightarrow> (Some e, ps1' @ ps2, h1)
      | (None, ps1', h1) \<Rightarrow>
          (case resolveParameters c ps2 h1 of (e, ps2', h2) \<Rightarrow> (e, ps1' @ ps2', h2)))"
  by (induction c ps1 h rule: resolveParameters.induct)
     (auto split: prod.splits option.splits sum.splits)

lemma resolveContent_append:
  "resolveContent c (ct1 @ ct2) h =
     (case resolveContent c ct1 h of
        (Some e, h1) \<Rightarrow> (Some e, h1)
      | (None, h1) \<Rightarrow> resolveContent c ct2 h1)"
  by (induction c ct1 h rule: resolveContent.induct)
     (auto split: prod.splits option.splits sum.splits)

lemma resolveResponses_append:
  "resolveResponses c (rs1 @ rs2) h =
     (case resolveResponses c rs1 h of
        (Some e, rs1', h1) \<Rightarrow> (Some e, rs1' @ rs2, h1)
      | (None, rs1', h1) \<Rightarrow>
          (case resolveResponses c rs2 h1 of (e, rs2', h2) \<Rightarrow> (e, rs1' @ rs2', h2)))"
  by (induction c rs1 h rule: resolveResponses.induct)
     (auto split: prod.splits option.splits sum.splits)

lemma extract_Page:
  "extractNameFromRef ''#/components/parameters/Page'' ''parameters'' = ''Page''"
  "extractNameFromRef ''#/components/parameters/Missing'' ''parameters'' = ''Missing''"
  "extractNameFromRef ''#/components/schemas/S'' ''schemas'' = ''S''"
  "extractNameFromRef ''#/components/schemas/Gone'' ''schemas'' = ''Gone''"
  by (simp_all add: extractNameFromRef_def TrimPrefix_def HasPrefix_def)

lemma missHeap_reads:
  "Parameter_Ref (parameters missHeap 0) = ''#/components/parameters/Page''"
  "Parameter_Schema (parameters missHeap 0) = None"
  "Parameter_Ref (parameters missHeap 5) = ''#/components/parameters/Missing''"
  "Parameter_Ref (parameters missHeap 4) = []"
  "Parameter_Schema (parameters missHeap 4) = Some 0"
  "Schema_Ref (schemas missHeap 0) = ''#/components/schemas/S''"
  by (simp_all add: missHeap_def zeroHeap_def zeroParameter_def zeroSchema_def)

lemma ResolveReferences_failing_endpoint:
  assumes "Doc_Components doc = Some c"
    and "Doc_Endpoints doc = pre @ ep # post"
    and "resolveEndpoints c pre h = (None, pre', h1)"
    and "resolveEndpoint c ep h1 = (Some e, ep', h2)"
  shows "ResolveReferences doc h = (Some e, doc\<lparr>Doc_Endpoints := pre' @ ep' # post\<rparr>, h2)"
proof -
  have "resolveEndpoints c (pre @ ep # post) h = (Some e, pre' @ ep' # post, h2)"
    using assms(3,4) by (simp add: resolveEndpoints_append)
  then show ?thesis
    using assms(1,2) by (simp add: ResolveReferences_def)
qed

text \<open>
  The step at which each of the six lookups of the walk stands on an absent
  descriptor: the lookup of a parameter slot, of the schema of a parameter, of the
  request body, of a schema in the content of the request body, of a response entry, and
  of a schema in the content of a response.
\<close>

lemma lookup_resolvedSlot:
  assumes "resolvedSlot table componentType ref before slot"
  shows "(if ref \<noteq> [] then lookupRef kind componentType table ref else Inr before) = Inr slot"
  using assms by (simp add: resolvedSlot_def lookupRef_def)

lemma resolveSchema_absent:
  assumes "absent (Components_Schemas c) ''schemas'' (Schema_Ref (schemas h s))"
  shows "resolveSchema c h (Some s) =
           Inl (Errorf (''unresolved schema reference: '' @ Schema_Ref (schemas h s)))"
  using assms by (simp add: absent_def resolveSchema_def lookupRef_def)

lemma resolveParameters_absent:
  assumes "resolveParameters c ps1 h = (None, ps1', g)"
    and "absent (Components_Parameters c) ''parameters'' (Parameter_Ref (parameters g a))"
  shows "resolveParameters c (ps1 @ Some a # ps2) h =
           (Some (Errorf (''unresolved parameter reference: '' @ Parameter_Ref (parameters g a))),
            ps1' @ Some a # ps2, g)"
  using assms by (simp add: resolveParameters_append absent_def lookupRef_def)

lemma resolveParameters_schema_absent:
  assumes "resolveParameters c ps1 h = (None, ps1', g)"
    and "resolvedSlot (Components_Parameters c) ''parameters'' (Parameter_Ref (parameters g a))
           (Some a) slot"
    and "Parameter_Schema (parameters g a) = Some s"
    and "absent (Components_Schemas c) ''schemas'' (Schema_Ref (schemas g s))"
  shows "resolveParameters c (ps1 @ Some a # ps2) h =
           (Some (Errorf (''unresolved schema reference: '' @ Schema_Ref (schemas g s))),
            ps1' @ slot # ps2, g)"
  using assms(1,3) lookup_resolvedSlot [OF assms(2), of "''parameter''"]
    resolveSchema_absent [OF assms(4)]
  by (simp add: resolveParameters_append)

lemma resolveContent_absent:
  assumes "resolveContent c ct1 h = (None, g)"
    and "MediaType_Schema (mediaTypes g m) = Some s"
    and "absent (Components_Schemas c) ''schemas'' (Schema_Ref (schemas g s))"
  shows "resolveContent c (ct1 @ (mediaType, Some m) # ct2) h =
           (Some (Errorf (''unresolved schema reference: '' @ Schema_Ref (schemas g s))), g)"
  using assms(1,2) resolveSchema_absent [OF assms(3)]
  by (simp add: resolveContent_append)

lemma resolveRequestBody_absent:
  assumes "absent (Components_RequestBodies c) ''requestBodies''
             (RequestBody_Ref (requestBodies h b))"
  shows "resolveRequestBody c (Some b) h =
           (Some (Errorf (''unresolved requestBody reference: '' @
                          RequestBody_Ref (requestBodies h b))), Some b, h)"
  using assms by (simp add: resolveRequestBody_def absent_def lookupRef_def)

lemma resolveRequestBody_schema_absent:
  assumes "resolvedSlot (Components_RequestBodies c) ''requestBodies''
             (RequestBody_Ref (requestBodies h b)) (Some b) (Some b')"
    and "RequestBody_Content (requestBodies h b') = ct1 @ (mediaType, Some m) # ct2"
    and "resolveContent c ct1 h = (None, g)"
    and "MediaType_Schema (mediaTypes g m) = Some s"
    and "absent (Components_Schemas c) ''schemas'' (Schema_Ref (schemas g s))"
  shows "resolveRequestBody c (Some b) h =
           (Some (Errorf (''unresolved schema reference: '' @ Schema_Ref (schemas g s))),
            Some b', g)"
  using lookup_resolvedSlot [OF assms(1), of "''requestBody''"] assms(2)
    resolveContent_absent [OF assms(3,4,5), of mediaType ct2]
  by (simp add: resolveRequestBody_def)

lemma resolveResponses_absent:
  assumes "resolveResponses c rs1 h = (None, rs1', g)"
    and "absent (Components_Responses c) ''responses'' (Response_Ref (responses g r))"
  shows "resolveResponses c (rs1 @ (code, Some r) # rs2) h =
           (Some (Errorf (''unresolved response reference: '' @ Response_Ref (responses g r))),
            rs1' @ (code, Some r) # rs2, g)"
  using assms by (simp add: resolveResponses_append absent_def lookupRef_def)

lemma resolveResponses_schema_absent:
  assumes "resolveResponses c rs1 h = (None, rs1', g)"
    and "resolvedSlot (Components_Responses c) ''responses'' (Response_Ref (responses g r))
           (Some r) slot"
    and "Response_Content (responses g r) = ct1 @ (mediaType, Some m) # ct2"
    and "resolveContent c ct1 g = (None, g')"
    and "MediaType_Schema (mediaTypes g' m) = Some s"
    and "absent (Components_Schemas c) ''schemas'' (Schema_Ref (schemas g' s))"
  shows "resolveResponses c (rs1 @ (code, Some r) # rs2) h =
           (Some (Errorf (''unresolved schema reference: '' @ Schema_Ref (schemas g' s))),
            rs1' @ (code, slot) # rs2, g')"
  using assms(1,3) lookup_resolvedSlot [OF assms(2), of "''response''"]
    resolveContent_absent [OF assms(4,5,6), of mediaType ct2]
  by (simp add: resolveResponses_append)

text \<open>
  Claim C1, as amended. The endpoints before \<open>ep\<close> have resolved. When the walk of
  \<open>ep\<close> then comes to a lookup whose descriptor is absent from its table, the lookups
  before it in \<open>ep\<close> having succeeded, the call returns at once with the error made from
  the text \<open>unresolved K reference: D\<close>, \<open>D\<close> being that descriptor: the endpoints after
  \<open>ep\<close> and the slots after the lookup are as they were, and the heap is the one the
  last successful step left. This is stated for each of the six lookups: a parameter slot,
  the schema of the parameter that was in a slot, the request body, a schema in the
  content of the request body now in the field, a response entry, and a schema in the
  content of the response that was under a code. The message of the error is that text
  whenever the descriptor has no percent sign.
\<close>

theorem ResolveReferences_stops_at_first_miss:
  assumes "Doc_Components doc = Some c"
    and "Doc_Endpoints doc = pre @ ep # post"
    and "resolveEndpoints c pre h = (None, pre', h1)"
  shows "(Endpoint_Parameters ep = ps1 @ Some a # ps2 \<longrightarrow>
          resolveParameters c ps1 h1 = (None, ps1', g) \<longrightarrow>
          absent (Components_Parameters c) ''parameters'' (Parameter_Ref (parameters g a)) \<longrightarrow>
          ResolveReferences doc h =
            (Some (Errorf (''unresolved parameter reference: '' @ Parameter_Ref (parameters g a))),
             doc\<lparr>Doc_Endpoints :=
               pre' @ ep\<lparr>Endpoint_Parameters := ps1' @ Some a # ps2\<rparr> # post\<rparr>, g)) \<and>
         (Endpoint_Parameters ep = ps1 @ Some a # ps2 \<longrightarrow>
          resolveParameters c ps1 h1 = (None, ps1', g) \<longrightarrow>
          resolvedSlot (Components_Parameters c) ''parameters'' (Parameter_Ref (parameters g a))
            (Some a) slot \<longrightarrow>
          Parameter_Schema (parameters g a) = Some s \<longrightarrow>
          absent (Components_Schemas c) ''schemas'' (Schema_Ref (schemas g s)) \<longrightarrow>
          ResolveReferences doc h =
            (Some (Errorf (''unresolved schema reference: '' @ Schema_Ref (schemas g s))),
             doc\<lparr>Doc_Endpoints :=
               pre' @ ep\<lparr>Endpoint_Parameters := ps1' @ slot # ps2\<rparr> # post\<rparr>, g)) \<and>
         (resolveParameters c (Endpoint_Parameters ep) h1 = (None, ps', g) \<longrightarrow>
          Endpoint_RequestBody ep = Some b \<longrightarrow>
          absent (Components_RequestBodies c) ''requestBodies''
            (RequestBody_Ref (requestBodies g b)) \<longrightarrow>
          ResolveReferences doc h =
            (Some (Errorf (''unresolved requestBody reference: '' @
                           RequestBody_Ref (requestBodies g b))),
             doc\<lparr>Doc_Endpoints := pre' @ ep\<lparr>Endpoint_Parameters := ps'\<rparr> # post\<rparr>, g)) \<and>
         (resolveParameters c (Endpoint_Parameters ep) h1 = (None, ps', g) \<longrightarrow>
          Endpoint_RequestBody ep = Some b \<longrightarrow>
          resolvedSlot (Components_RequestBodies c) ''requestBodies''
            (RequestBody_Ref (requestBodies g b)) (Some b) (Some b') \<longrightarrow>
          RequestBody_Content (requestBodies g b') = ct1 @ (mediaType, Some m) # ct2 \<longrightarrow>
          resolveContent c ct1 g = (None, g') \<longrightarrow>
          MediaType_Schema (mediaTypes g' m) = Some s \<longrightarrow>
          absent (Components_Schemas c) ''schemas'' (Schema_Ref (schemas g' s)) \<longrightarrow>
          ResolveReferences doc h =
            (Some (Errorf (''unresolved schema reference: '' @ Schema_Ref (schemas g' s))),
             doc\<lparr>Doc_Endpoints :=
               pre' @ ep\<lparr>Endpoint_Parameters := ps', Endpoint_RequestBody := Some b'\<rparr> # post\<rparr>,
             g')) \<and>
         (resolveParameters c (Endpoint_Parameters ep) h1 = (None, ps', g) \<longrightarrow>
          resolveRequestBody c (Endpoint_RequestBody ep) g = (None, rb', g2) \<longrightarrow>
          Endpoint_Responses ep = rs1 @ (code, Some r) # rs2 \<longrightarrow>
          resolveResponses c rs1 g2 = (None, rs1', g3) \<longrightarrow>
          absent (Components_Responses c) ''responses'' (Response_Ref (responses g3 r)) \<longrightarrow>
          ResolveReferences doc h =
            (Some (Errorf (''unresolved response reference: '' @ Response_Ref (responses g3 r))),
             doc\<lparr>Doc_Endpoints :=
               pre' @ ep\<lparr>Endpoint_Parameters := ps', Endpoint_RequestBody := rb',
                           Endpoint_Responses := rs1' @ (code, Some r) # rs2\<rparr> # post\<rparr>, g3)) \<and>
         (resolveParameters c (Endpoint_Parameters ep) h1 = (None, ps', g) \<longrightarrow>
          resolveRequestBody c (Endpoint_RequestBody ep) g = (None, rb', g2) \<longrightarrow>
          Endpoint_Responses ep = rs1 @ (code, Some r) # rs2 \<longrightarrow>
          resolveResponses c rs1 g2 = (None, rs1', g3) \<longrightarrow>
          resolvedSlot (Components_Responses c) ''responses'' (Response_Ref (responses g3 r))
            (Some r) slot \<longrightarrow>
          Response_Content (responses g3 r) = ct1 @ (mediaType, Some m) # ct2 \<longrightarrow>
          resolveContent c ct1 g3 = (None, g4) \<longrightarrow>
          MediaType_Schema (mediaTypes g4 m) = Some s \<longrightarrow>
          absent (Components_Schemas c) ''schemas'' (Schema_Ref (schemas g4 s)) \<longrightarrow>
          ResolveReferences doc h =
            (Some (Errorf (''unresolved schema reference: '' @ Schema_Ref (schemas g4 s))),
             doc\<lparr>Doc_Endpoints :=
               pre' @ ep\<lparr>Endpoint_Parameters := ps', Endpoint_RequestBody := rb',
                           Endpoint_Responses := rs1' @ (code, slot) # rs2\<rparr> # post\<rparr>, g4)) \<and>
         (CHR ''%'' \<notin> set ref \<longrightarrow>
          Errorf (''unresolved parameter reference: '' @ ref) =
            Error (''unresolved parameter reference: '' @ ref) \<and>
          Errorf (''unresolved schema reference: '' @ ref) =
            Error (''unresolved schema reference: '' @ ref) \<and>
          Errorf (''unresolved requestBody reference: '' @ ref) =
            Error (''unresolved requestBody reference: '' @ ref) \<and>
          Errorf (''unresolved response reference: '' @ ref) =
            Error (''unresolved response reference: '' @ ref))"
proof (intro conjI impI)
  assume "Endpoint_Parameters ep = ps1 @ Some a # ps2"
    and "resolveParameters c ps1 h1 = (None, ps1', g)"
    and "absent (Components_Parameters c) ''parameters'' (Parameter_Ref (parameters g a))"
  then have "resolveEndpoint c ep h1 =
      (Some (Errorf (''unresolved parameter reference: '' @ Parameter_Ref (parameters g a))),
       ep\<lparr>Endpoint_Parameters := ps1' @ Some a # ps2\<rparr>, g)"
    by (simp add: resolveEndpoint_def resolveParameters_absent del: resolveParameters.simps)
  then show "ResolveReferences doc h =
      (Some (Errorf (''unresolved parameter reference: '' @ Parameter_Ref (parameters g a))),
       doc\<lparr>Doc_Endpoints := pre' @ ep\<lparr>Endpoint_Parameters := ps1' @ Some a # ps2\<rparr> # post\<rparr>, g)"
    by (rule ResolveReferences_failing_endpoint [OF assms])
next
  assume "Endpoint_Parameters ep = ps1 @ Some a # ps2"
    and "resolveParameters c ps1 h1 = (None, ps1', g)"
    and "resolvedSlot (Components_Parameters c) ''parameters'' (Parameter_Ref (parameters g a))
           (Some a) slot"
    and "Parameter_Schema (parameters g a) = Some s"
    and "absent (Components_Schemas c) ''schemas'' (Schema_Ref (schemas g s))"
  then have "resolveEndpoint c ep h1 =
      (Some (Errorf (''unresolved schema reference: '' @ Schema_Ref (schemas g s))),
       ep\<lparr>Endpoint_Parameters := ps1' @ slot # ps2\<rparr>, g)"
    by (simp add: resolveEndpoint_def resolveParameters_schema_absent
        del: resolveParameters.simps)
  then show "ResolveReferences doc h =
      (Some (Errorf (''unresolved schema reference: '' @ Schema_Ref (schemas g s))),
       doc\<lparr>Doc_Endpoints := pre' @ ep\<lparr>Endpoint_Parameters := ps1' @ slot # ps2\<rparr> # post\<rparr>, g)"
    by (rule ResolveReferences_failing_endpoint [OF assms])
next
  assume "resolveParameters c (Endpoint_Parameters ep) h1 = (None, ps', g)"
    and "Endpoint_RequestBody ep = Some b"
    and "absent (Components_RequestBodies c) ''requestBodies''
           (RequestBody_Ref (requestBodies g b))"
  then have "resolveEndpoint c ep h1 =
      (Some (Errorf (''unresolved requestBody reference: '' @
                     RequestBody_Ref (requestBodies g b))),
       ep\<lparr>Endpoint_Parameters := ps'\<rparr>, g)"
    by (simp add: resolveEndpoint_def resolveRequestBody_absent)
  then show "ResolveReferences doc h =
      (Some (Errorf (''unresolved requestBody reference: '' @
                     RequestBody_Ref (requestBodies g b))),
       doc\<lparr>Doc_Endpoints := pre' @ ep\<lparr>Endpoint_Parameters := ps'\<rparr> # post\<rparr>, g)"
    by (rule ResolveReferences_failing_endpoint [OF assms])
next
  assume "resolveParameters c (Endpoint_Parameters ep) h1 = (None, ps', g)"
    and "Endpoint_RequestBody ep = Some b"
    and "resolvedSlot (Components_RequestBodies c) ''requestBodies''
           (RequestBody_Ref (requestBodies g b)) (Some b) (Some b')"
    and "RequestBody_Content (requestBodies g b') = ct1 @ (mediaType, Some m) # ct2"
    and "resolveContent c ct1 g = (None, g')"
    and "MediaType_Schema (mediaTypes g' m) = Some s"
    and "absent (Components_Schemas c) ''schemas'' (Schema_Ref (schemas g' s))"
  then have "resolveEndpoint c ep h1 =
      (Some (Errorf (''unresolved schema reference: '' @ Schema_Ref (schemas g' s))),
       ep\<lparr>Endpoint_Parameters := ps', Endpoint_RequestBody := Some b'\<rparr>, g')"
    by (simp add: resolveEndpoint_def resolveRequestBody_schema_absent)
  then show "ResolveReferences doc h =
      (Some (Errorf (''unresolved schema reference: '' @ Schema_Ref (schemas g' s))),
       doc\<lparr>Doc_Endpoints :=
         pre' @ ep\<lparr>Endpoint_Parameters := ps', Endpoint_RequestBody := Some b'\<rparr> # post\<rparr>, g')"
    by (rule ResolveReferences_failing_endpoint [OF assms])
next
  assume "resolveParameters c (Endpoint_Parameters ep) h1 = (None, ps', g)"
    and "resolveRequestBody c (Endpoint_RequestBody ep) g = (None, rb', g2)"
    and "Endpoint_Responses ep = rs1 @ (code, Some r) # rs2"
    and "resolveResponses c rs1 g2 = (None, rs1', g3)"
    and "absent (Components_Responses c) ''responses'' (Response_Ref (responses g3 r))"
  then have "resolveEndpoint c ep h1 =
      (Some (Errorf (''unresolved response reference: '' @ Response_Ref (responses g3 r))),
       ep\<lparr>Endpoint_Parameters := ps', Endpoint_RequestBody := rb',
           Endpoint_Responses := rs1' @ (code, Some r) # rs2\<rparr>, g3)"
    by (simp add: resolveEndpoint_def resolveResponses_absent del: resolveResponses.simps)
  then show "ResolveReferences doc h =
      (Some (Errorf (''unresolved response reference: '' @ Response_Ref (responses g3 r))),
       doc\<lparr>Doc_Endpoints :=
         pre' @ ep\<lparr>Endpoint_Parameters := ps', Endpoint_RequestBody := rb',
                     Endpoint_Responses := rs1' @ (code, Some r) # rs2\<rparr> # post\<rparr>, g3)"
    by (rule ResolveReferences_failing_endpoint [OF assms])
next
  assume "resolveParameters c (Endpoint_Parameters ep) h1 = (None, ps', g)"
    and "resolveRequestBody c (Endpoint_RequestBody ep) g = (None, rb', g2)"
    and "Endpoint_Responses ep = rs1 @ (code, Some r) # rs2"
    and "resolveResponses c rs1 g2 = (None, rs1', g3)"
    and "resolvedSlot (Components_Responses c) ''responses'' (Response_Ref (responses g3 r))
           (Some r) slot"
    and "Response_Content (responses g3 r) = ct1 @ (mediaType, Some m) # ct2"
    and "resolveContent c ct1 g3 = (None, g4)"
    and "MediaType_Schema (mediaTypes g4 m) = Some s"
    and "absent (Components_Schemas c) ''schemas'' (Schema_Ref (schemas g4 s))"
  then have "resolveEndpoint c ep h1 =
      (Some (Errorf (''unresolved schema reference: '' @ Schema_Ref (schemas g4 s))),
       ep\<lparr>Endpoint_Parameters := ps', Endpoint_RequestBody := rb',
           Endpoint_Responses := rs1' @ (code, slot) # rs2\<rparr>, g4)"
    by (simp add: resolveEndpoint_def resolveResponses_schema_absent
        del: resolveResponses.simps)
  then show "ResolveReferences doc h =
      (Some (Errorf (''unresolved schema reference: '' @ Schema_Ref (schemas g4 s))),
       doc\<lparr>Doc_Endpoints :=
         pre' @ ep\<lparr>Endpoint_Parameters := ps', Endpoint_RequestBody := rb',
                     Endpoint_Responses := rs1' @ (code, slot) # rs2\<rparr> # post\<rparr>, g4)"
    by (rule ResolveReferences_failing_endpoint [OF assms])
qed (simp_all add: Errorf_plain)

text \<open>
  Two documents of three endpoints. In the first the second endpoint has a parameter
  slot with the descriptor of the absent parameter \<open>Missing\<close>. In the second the first
  endpoint resolves with a write to the heap, and the second endpoint fails at its second
  slot: the parameter there (address 8) refers to the component \<open>Page\<close>, which is put
  into the slot, and its schema carries the descriptor of the absent schema \<open>Gone\<close>.
\<close>

theorem ResolveReferences_stops_at_first_miss_witness:
  "ResolveReferences firstMissDoc missHeap =
     (Some (Errorf ''unresolved parameter reference: #/components/parameters/Missing''),
      firstMissDoc\<lparr>Doc_Endpoints :=
        [zeroEndpoint\<lparr>Endpoint_Path := ''/a'', Endpoint_Parameters := [Some 2]\<rparr>,
         zeroEndpoint\<lparr>Endpoint_Path := ''/b'', Endpoint_Parameters := [Some 5]\<rparr>,
         zeroEndpoint\<lparr>Endpoint_Path := ''/c'', Endpoint_Parameters := [Some 3]\<rparr>]\<rparr>,
      missHeap) \<and>
   ResolveReferences schemaMissDoc schemaMissHeap =
     (Some (Errorf ''unresolved schema reference: #/components/schemas/Gone''),
      schemaMissDoc\<lparr>Doc_Endpoints :=
        [zeroEndpoint\<lparr>Endpoint_Path := ''/a'', Endpoint_Parameters := [Some 4]\<rparr>,
         zeroEndpoint\<lparr>Endpoint_Path := ''/b'', Endpoint_Parameters := [Some 2, Some 2, Some 5]\<rparr>,
         zeroEndpoint\<lparr>Endpoint_Path := ''/c'', Endpoint_Parameters := [Some 3]\<rparr>]\<rparr>,
      set_Parameter_Schema 4 (Some 6) schemaMissHeap) \<and>
   Errorf ''unresolved parameter reference: #/components/parameters/Missing'' =
     Error ''unresolved parameter reference: #/components/parameters/Missing'' \<and>
   Errorf ''unresolved schema reference: #/components/schemas/Gone'' =
     Error ''unresolved schema reference: #/components/schemas/Gone''"
proof -
  have pre: "resolveEndpoints pageComponents
               [zeroEndpoint\<lparr>Endpoint_Path := ''/a'', Endpoint_Parameters := [Some 0]\<rparr>] missHeap =
             (None, [zeroEndpoint\<lparr>Endpoint_Path := ''/a'', Endpoint_Parameters := [Some 2]\<rparr>], missHeap)"
    by (simp add: resolveEndpoint_def resolveRequestBody_def zeroEndpoint_def missHeap_reads
        lookupRef_def extract_Page pageComponents_def zeroComponents_def resolveSchema_def
        set_Parameter_Schema_unchanged)
  have comps: "Doc_Components firstMissDoc = Some pageComponents"
    and eps: "Doc_Endpoints firstMissDoc =
      [zeroEndpoint\<lparr>Endpoint_Path := ''/a'', Endpoint_Parameters := [Some 0]\<rparr>] @
      zeroEndpoint\<lparr>Endpoint_Path := ''/b'', Endpoint_Parameters := [Some 5]\<rparr> #
      [zeroEndpoint\<lparr>Endpoint_Path := ''/c'', Endpoint_Parameters := [Some 3]\<rparr>]"
    by (simp_all add: firstMissDoc_def)
  have split: "Endpoint_Parameters
      (zeroEndpoint\<lparr>Endpoint_Path := ''/b'', Endpoint_Parameters := [Some 5]\<rparr>) = [] @ Some 5 # []"
    by simp
  have nil: "resolveParameters pageComponents [] missHeap = (None, [], missHeap)"
    by simp
  have miss: "absent (Components_Parameters pageComponents) ''parameters''
      (Parameter_Ref (parameters missHeap 5))"
    by (simp add: absent_def missHeap_reads extract_Page pageComponents_def zeroComponents_def)
  note one = ResolveReferences_stops_at_first_miss
    [OF comps eps pre, THEN conjunct1, rule_format, OF split nil miss]
  let ?h = "set_Parameter_Schema 4 (Some 6) schemaMissHeap"
  have reads: "Parameter_Ref (parameters schemaMissHeap 4) = []"
    "Parameter_Schema (parameters schemaMissHeap 4) = Some 0"
    "Schema_Ref (schemas schemaMissHeap 0) = ''#/components/schemas/S''"
    by (simp_all add: schemaMissHeap_def missHeap_reads)
  have reads': "Parameter_Ref (parameters ?h 0) = ''#/components/parameters/Page''"
    "Parameter_Schema (parameters ?h 0) = None"
    "Parameter_Ref (parameters ?h 8) = ''#/components/parameters/Page''"
    "Parameter_Schema (parameters ?h 8) = Some 7"
    "Schema_Ref (schemas ?h 7) = ''#/components/schemas/Gone''"
    by (simp_all add: set_Parameter_Schema_def schemaMissHeap_def missHeap_reads zeroParameter_def
        zeroSchema_def)
  have pre2: "resolveEndpoints pageComponents
               [zeroEndpoint\<lparr>Endpoint_Path := ''/a'', Endpoint_Parameters := [Some 4]\<rparr>]
               schemaMissHeap =
             (None, [zeroEndpoint\<lparr>Endpoint_Path := ''/a'', Endpoint_Parameters := [Some 4]\<rparr>], ?h)"
    by (simp add: resolveEndpoint_def resolveRequestBody_def zeroEndpoint_def reads
        lookupRef_def extract_Page pageComponents_def zeroComponents_def resolveSchema_def)
  have comps2: "Doc_Components schemaMissDoc = Some pageComponents"
    and eps2: "Doc_Endpoints schemaMissDoc =
      [zeroEndpoint\<lparr>Endpoint_Path := ''/a'', Endpoint_Parameters := [Some 4]\<rparr>] @
      zeroEndpoint\<lparr>Endpoint_Path := ''/b'', Endpoint_Parameters := [Some 0, Some 8, Some 5]\<rparr> #
      [zeroEndpoint\<lparr>Endpoint_Path := ''/c'', Endpoint_Parameters := [Some 3]\<rparr>]"
    by (simp_all add: schemaMissDoc_def)
  have split2: "Endpoint_Parameters
      (zeroEndpoint\<lparr>Endpoint_Path := ''/b'', Endpoint_Parameters := [Some 0, Some 8, Some 5]\<rparr>) =
      [Some 0] @ Some 8 # [Some 5]"
    by simp
  have ps1: "resolveParameters pageComponents [Some 0] ?h = (None, [Some 2], ?h)"
    by (simp add: reads' lookupRef_def extract_Page pageComponents_def zeroComponents_def
        resolveSchema_def set_Parameter_Schema_unchanged)
  have slot: "resolvedSlot (Components_Parameters pageComponents) ''parameters''
      (Parameter_Ref (parameters ?h 8)) (Some 8) (Some 2)"
    by (simp add: resolvedSlot_def reads' extract_Page pageComponents_def zeroComponents_def)
  have gone: "absent (Components_Schemas pageComponents) ''schemas'' (Schema_Ref (schemas ?h 7))"
    by (simp add: absent_def reads' extract_Page pageComponents_def zeroComponents_def)
  note two = ResolveReferences_stops_at_first_miss
    [OF comps2 eps2 pre2, THEN conjunct2, THEN conjunct1, rule_format,
     OF split2 ps1 slot reads'(4) gone]
  from one two show ?thesis
    by (simp add: missHeap_reads reads' firstMissDoc_def schemaMissDoc_def Errorf_plain)
qed

text \<open>
  The descriptor of the absent schema \<open>Missing\<close> sits in the content of a request body
  that is itself replaced by the component \<open>B\<close>: the walk never reaches it and the call
  succeeds.
\<close>

theorem unreached_miss_counterexample:
  "Endpoint_RequestBody (hd (Doc_Endpoints hiddenMissDoc)) = Some 0 \<and>
   RequestBody_Content (requestBodies hiddenMissHeap 0) = [(''application/json'', Some 0)] \<and>
   MediaType_Schema (mediaTypes hiddenMissHeap 0) = Some 0 \<and>
   Schema_Ref (schemas hiddenMissHeap 0) = ''#/components/schemas/Missing'' \<and>
   map_of (Components_Schemas hiddenMissComponents)
     (extractNameFromRef ''#/components/schemas/Missing'' ''schemas'') = None \<and>
   ResolveReferences hiddenMissDoc hiddenMissHeap =
     (None,
      hiddenMissDoc\<lparr>Doc_Endpoints :=
        [zeroEndpoint\<lparr>Endpoint_Path := ''/a'', Endpoint_RequestBody := Some 7\<rparr>]\<rparr>,
      hiddenMissHeap)"
  by (simp add: ResolveReferences_def hiddenMissDoc_def hiddenMissComponents_def
      hiddenMissHeap_def zeroDocument_def zeroEndpoint_def zeroComponents_def zeroHeap_def
      zeroSchema_def zeroRequestBody_def resolveEndpoint_def resolveRequestBody_def
      lookupRef_def extractNameFromRef_def TrimPrefix_def HasPrefix_def)

text \<open>
  Claim C10. When the call fails, nothing is rolled back: the caller's document holds
  the endpoints before the failing one as resolved and the heap has every schema pointer
  written so far. Within the failing endpoint, a failure in the parameter loop leaves the
  slots before the failing one as resolved; a failure at the request body leaves the
  resolved parameter slots and the request body as it then is; a failure in the response
  loop leaves, besides these, the entries before the failing one as resolved.
\<close>

theorem ResolveReferences_partial_on_failure:
  assumes "Doc_Components doc = Some c"
    and "Doc_Endpoints doc = pre @ ep # post"
    and "resolveEndpoints c pre h = (None, pre', h1)"
  shows "(Endpoint_Parameters ep = ps1 @ ps2 \<longrightarrow>
          resolveParameters c ps1 h1 = (None, ps1', g1) \<longrightarrow>
          resolveParameters c ps2 g1 = (Some e, ps2', g2) \<longrightarrow>
          ResolveReferences doc h =
            (Some e,
             doc\<lparr>Doc_Endpoints := pre' @ ep\<lparr>Endpoint_Parameters := ps1' @ ps2'\<rparr> # post\<rparr>, g2)) \<and>
         (resolveParameters c (Endpoint_Parameters ep) h1 = (None, ps', h2) \<longrightarrow>
          resolveRequestBody c (Endpoint_RequestBody ep) h2 = (Some e, rb', h3) \<longrightarrow>
          ResolveReferences doc h =
            (Some e,
             doc\<lparr>Doc_Endpoints :=
               pre' @ ep\<lparr>Endpoint_Parameters := ps', Endpoint_RequestBody := rb'\<rparr> # post\<rparr>, h3)) \<and>
         (resolveParameters c (Endpoint_Parameters ep) h1 = (None, ps', h2) \<longrightarrow>
          resolveRequestBody c (Endpoint_RequestBody ep) h2 = (None, rb', h3) \<longrightarrow>
          Endpoint_Responses ep = rs1 @ rs2 \<longrightarrow>
          resolveResponses c rs1 h3 = (None, rs1', h4) \<longrightarrow>
          resolveResponses c rs2 h4 = (Some e, rs2', h5) \<longrightarrow>
          ResolveReferences doc h =
            (Some e,
             doc\<lparr>Doc_Endpoints :=
               pre' @ ep\<lparr>Endpoint_Parameters := ps', Endpoint_RequestBody := rb',
                           Endpoint_Responses := rs1' @ rs2'\<rparr> # post\<rparr>, h5))"
proof (intro conjI impI)
  assume "Endpoint_Parameters ep = ps1 @ ps2" "resolveParameters c ps1 h1 = (None, ps1', g1)"
    "resolveParameters c ps2 g1 = (Some e, ps2', g2)"
  then have "resolveParameters c (Endpoint_Parameters ep) h1 = (Some e, ps1' @ ps2', g2)"
    by (simp add: resolveParameters_append)
  then have "resolveEndpoint c ep h1 = (Some e, ep\<lparr>Endpoint_Parameters := ps1' @ ps2'\<rparr>, g2)"
    by (simp add: resolveEndpoint_def)
  then show "ResolveReferences doc h =
      (Some e, doc\<lparr>Doc_Endpoints := pre' @ ep\<lparr>Endpoint_Parameters := ps1' @ ps2'\<rparr> # post\<rparr>, g2)"
    by (rule ResolveReferences_failing_endpoint [OF assms])
next
  assume "resolveParameters c (Endpoint_Parameters ep) h1 = (None, ps', h2)"
    "resolveRequestBody c (Endpoint_RequestBody ep) h2 = (Some e, rb', h3)"
  then have "resolveEndpoint c ep h1 =
      (Some e, ep\<lparr>Endpoint_Parameters := ps', Endpoint_RequestBody := rb'\<rparr>, h3)"
    by (simp add: resolveEndpoint_def)
  then show "ResolveReferences doc h =
      (Some e,
       doc\<lparr>Doc_Endpoints :=
         pre' @ ep\<lparr>Endpoint_Parameters := ps', Endpoint_RequestBody := rb'\<rparr> # post\<rparr>, h3)"
    by (rule ResolveReferences_failing_endpoint [OF assms])
next
  assume "resolveParameters c (Endpoint_Parameters ep) h1 = (None, ps', h2)"
    "resolveRequestBody c (Endpoint_RequestBody ep) h2 = (None, rb', h3)"
    "Endpoint_Responses ep = rs1 @ rs2" "resolveResponses c rs1 h3 = (None, rs1', h4)"
    "resolveResponses c rs2 h4 = (Some e, rs2', h5)"
  then have "resolveEndpoint c ep h1 =
      (Some e, ep\<lparr>Endpoint_Parameters := ps', Endpoint_RequestBody := rb',
                   Endpoint_Responses := rs1' @ rs2'\<rparr>, h5)"
    by (simp add: resolveEndpoint_def resolveResponses_append)
  then show "ResolveReferences doc h =
      (Some e,
       doc\<lparr>Doc_Endpoints :=
         pre' @ ep\<lparr>Endpoint_Parameters := ps', Endpoint_RequestBody := rb',
                     Endpoint_Responses := rs1' @ rs2'\<rparr> # post\<rparr>, h5)"
    by (rule ResolveReferences_failing_endpoint [OF assms])
qed

theorem ResolveReferences_partial_on_failure_witness:
  "ResolveReferences partialDoc missHeap =
     (Some (Errorf ''unresolved parameter reference: #/components/parameters/Missing''),
      partialDoc\<lparr>Doc_Endpoints :=
        [zeroEndpoint\<lparr>Endpoint_Path := ''/a'', Endpoint_Parameters := [Some 4]\<rparr>,
         zeroEndpoint\<lparr>Endpoint_Path := ''/b'', Endpoint_Parameters := [Some 2, Some 5]\<rparr>,
         zeroEndpoint\<lparr>Endpoint_Path := ''/c'', Endpoint_Parameters := [Some 3]\<rparr>]\<rparr>,
      set_Parameter_Schema 4 (Some 6) missHeap) \<and>
   Parameter_Schema (parameters missHeap 4) = Some 0 \<and>
   Parameter_Schema (parameters (set_Parameter_Schema 4 (Some 6) missHeap) 4) = Some 6"
proof -
  let ?h = "set_Parameter_Schema 4 (Some 6) missHeap"
  have reads: "Parameter_Ref (parameters ?h 0) = ''#/components/parameters/Page''"
    "Parameter_Schema (parameters ?h 0) = None"
    "Parameter_Ref (parameters ?h 5) = ''#/components/parameters/Missing''"
    by (simp_all add: set_Parameter_Schema_def missHeap_reads)
  have pre: "resolveEndpoints pageComponents
               [zeroEndpoint\<lparr>Endpoint_Path := ''/a'', Endpoint_Parameters := [Some 4]\<rparr>] missHeap =
             (None, [zeroEndpoint\<lparr>Endpoint_Path := ''/a'', Endpoint_Parameters := [Some 4]\<rparr>], ?h)"
    by (simp add: resolveEndpoint_def resolveRequestBody_def zeroEndpoint_def missHeap_reads
        lookupRef_def extract_Page pageComponents_def zeroComponents_def resolveSchema_def)
  have ps1: "resolveParameters pageComponents [Some 0] ?h = (None, [Some 2], ?h)"
    by (simp add: reads lookupRef_def extract_Page pageComponents_def zeroComponents_def
        resolveSchema_def set_Parameter_Schema_unchanged)
  have ps2: "resolveParameters pageComponents [Some 5] ?h =
               (Some (Errorf ''unresolved parameter reference: #/components/parameters/Missing''),
                [Some 5], ?h)"
    by (simp add: reads lookupRef_def extract_Page pageComponents_def zeroComponents_def)
  have comps: "Doc_Components partialDoc = Some pageComponents"
    and eps: "Doc_Endpoints partialDoc =
      [zeroEndpoint\<lparr>Endpoint_Path := ''/a'', Endpoint_Parameters := [Some 4]\<rparr>] @
      zeroEndpoint\<lparr>Endpoint_Path := ''/b'', Endpoint_Parameters := [Some 0, Some 5]\<rparr> #
      [zeroEndpoint\<lparr>Endpoint_Path := ''/c'', Endpoint_Parameters := [Some 3]\<rparr>]"
    by (simp_all add: partialDoc_def)
  have split: "Endpoint_Parameters
      (zeroEndpoint\<lparr>Endpoint_Path := ''/b'', Endpoint_Parameters := [Some 0, Some 5]\<rparr>) =
      [Some 0] @ [Some 5]"
    by simp
  from ResolveReferences_partial_on_failure
    [OF comps eps pre, THEN conjunct1, rule_format, OF split ps1 ps2]
  show ?thesis
    by (simp add: partialDoc_def) (simp add: set_Parameter_Schema_def missHeap_reads)
qed


subsection \<open>Success and a second call\<close>

lemma advances_refl [simp]: "advances h h"
  by (simp add: advances_def)




































subsection \<open>The heap after the call\<close>


lemma keeps_refl [simp]: "keeps c h h1 h1"
  by (simp add: keeps_def)
























section \<open>Properties of loading and rendering\<close>

lemma TrimLeftFrom_allSpace: "allSpaceFrom k s \<Longrightarrow> TrimLeftFrom k s = []"
  by (induction k s rule: allSpaceFrom.induct) (auto split: nat.splits)

lemma TrimSpace_allSpace: "allSpaceFrom 0 s \<Longrightarrow> TrimSpace s = []"
  by (simp add: TrimSpace_def TrimLeftFrom_allSpace)

text \<open>
  Claim C8. Input that is empty or consists of white space only loads as the zero
  document with no error, whatever the decoders would do, and rendering that document
  gives the header with an empty title and version and the placeholder description.
\<close>

theorem empty_input_loads_and_renders:
  assumes "allSpaceFrom 0 data"
  shows "LoadAPISpec dec (Inr data) h =
           Inr (\<lparr>Doc_Title = [], Doc_Version = [], Doc_Description = [], Doc_Endpoints = [],
                 Doc_Servers = [], Doc_Components = None\<rparr>, h) \<and>
         RenderText unicodeUpper
           \<lparr>Doc_Title = [], Doc_Version = [], Doc_Description = [], Doc_Endpoints = [],
            Doc_Servers = [], Doc_Components = None\<rparr> h =
           Inr (''API:  (v)'' @ NL @ NL @ ''DESCRIPTION:'' @ NL @
                ''(None or your description here)'' @ NL @ NL)"
  using assms by (simp add: LoadAPISpec_def TrimSpace_allSpace zeroDocument_def RenderText_def)

theorem empty_input_loads_and_renders_witness:
  "allSpaceFrom 0 [CHR 0x20, CHR 0x0A, CHR 0x09, CHR 0xC2, CHR 0xA0] \<and>
   LoadAPISpec failingDecoders (Inr [CHR 0x20, CHR 0x0A, CHR 0x09, CHR 0xC2, CHR 0xA0]) zeroHeap =
     Inr (zeroDocument, zeroHeap) \<and>
   LoadAPISpec failingDecoders (Inr []) zeroHeap = Inr (zeroDocument, zeroHeap) \<and>
   RenderText id zeroDocument zeroHeap =
     Inr (''API:  (v)'' @ NL @ NL @ ''DESCRIPTION:'' @ NL @
          ''(None or your description here)'' @ NL @ NL)"
  using empty_input_loads_and_renders
      [of "[CHR 0x20, CHR 0x0A, CHR 0x09, CHR 0xC2, CHR 0xA0]" failingDecoders zeroHeap id]
    empty_input_loads_and_renders [of "[]" failingDecoders zeroHeap id]
  by (simp add: asciiSpace_def spaceLen.simps zeroDocument_def)

lemma renderParameters_Inl: "renderParameters h ps = Inl e \<Longrightarrow> e = NilDereference"
  by (induction h ps rule: renderParameters.induct) (auto split: sum.splits)

lemma renderResponses_Inl: "renderResponses h rs = Inl e \<Longrightarrow> e = NilDereference"
  by (induction h rs rule: renderResponses.induct) (auto split: sum.splits)

lemma renderParameters_nil: "None \<in> set ps \<Longrightarrow> renderParameters h ps = Inl NilDereference"
  by (induction h ps rule: renderParameters.induct) (auto split: sum.splits)

lemma renderParameters_total: "None \<notin> set ps \<Longrightarrow> \<exists>out. renderParameters h ps = Inr out"
  by (induction h ps rule: renderParameters.induct) auto

lemma renderResponses_total: "None \<notin> snd ` set rs \<Longrightarrow> \<exists>out. renderResponses h rs = Inr out"
  by (induction h rs rule: renderResponses.induct) auto

lemma renderEndpoint_total:
  assumes "None \<notin> set (Endpoint_Parameters ep)" and "None \<notin> snd ` set (Endpoint_Responses ep)"
  shows "\<exists>out. renderEndpoint unicodeUpper h ep = Inr out"
proof -
  obtain ps where "renderParameters h (Endpoint_Parameters ep) = Inr ps"
    using renderParameters_total [OF assms(1)] by blast
  moreover obtain rs where "renderResponses h (Endpoint_Responses ep) = Inr rs"
    using renderResponses_total [OF assms(2)] by blast
  ultimately show ?thesis
    by (simp add: renderEndpoint_def)
qed

text \<open>
  Rendering returns text for every document without nil parameter slots and nil
  response entries, and panics as soon as an endpoint has a nil parameter slot.
\<close>

lemma RenderText_total_without_nil:
  assumes "list_all (\<lambda>ep. None \<notin> set (Endpoint_Parameters ep) \<and>
                         None \<notin> snd ` set (Endpoint_Responses ep)) (Doc_Endpoints doc)"
  shows "\<exists>out. RenderText unicodeUpper doc h = Inr out"
proof -
  have "list_all (\<lambda>ep. None \<notin> set (Endpoint_Parameters ep) \<and>
                        None \<notin> snd ` set (Endpoint_Responses ep)) eps \<Longrightarrow>
        \<exists>out. renderEndpoints unicodeUpper h eps = Inr out" for eps
  proof (induction eps)
    case Nil
    then show ?case by simp
  next
    case (Cons ep eps)
    then obtain out outs where "renderEndpoint unicodeUpper h ep = Inr out"
      "renderEndpoints unicodeUpper h eps = Inr outs"
      using renderEndpoint_total [of ep unicodeUpper h] by auto
    then show ?case by simp
  qed
  from this [OF assms] show ?thesis
    by (auto simp: RenderText_def)
qed

lemma RenderText_nil_slot:
  assumes "ep \<in> set (Doc_Endpoints doc)" and "None \<in> set (Endpoint_Parameters ep)"
  shows "RenderText unicodeUpper doc h = Inl NilDereference"
proof -
  have ep: "renderEndpoint unicodeUpper h ep = Inl NilDereference"
    using assms(2) renderParameters_nil [OF assms(2), of h]
    by (auto simp: renderEndpoint_def)
  have "ep \<in> set eps \<Longrightarrow> renderEndpoints unicodeUpper h eps = Inl NilDereference" for eps
  proof (induction eps)
    case Nil
    then show ?case by simp
  next
    case (Cons x eps)
    have all: "renderEndpoint unicodeUpper h x = Inl e \<Longrightarrow> e = NilDereference" for e
      by (auto simp: renderEndpoint_def split: if_splits sum.splits
          dest: renderParameters_Inl renderResponses_Inl)
    show ?case
    proof (cases "renderEndpoint unicodeUpper h x")
      case (Inl e)
      with all show ?thesis by simp
    next
      case (Inr out)
      with ep have "x \<noteq> ep" by auto
      with Cons Inr show ?thesis by simp
    qed
  qed
  from this [OF assms(1)] show ?thesis
    by (simp add: RenderText_def)
qed

text \<open>
  Claim C6. Rendering is not total: on a document whose parameter sequence has a nil
  slot the loop reads \<open>p.Type\<close> through the nil pointer, and the call panics instead of
  returning text.
\<close>

theorem RenderText_nil_parameter_panics:
  "RenderText unicodeUpper nilSlotDoc zeroHeap = Inl NilDereference"
  by (simp add: RenderText_def nilSlotDoc_def zeroDocument_def zeroEndpoint_def renderEndpoint_def)

lemma FieldsFrom_spaces_append:
  "FieldsFrom 0 f (replicate n (CHR '' '') @ s) =
     (if n = 0 then FieldsFrom 0 f s else (if f = [] then [] else [f]) @ FieldsFrom 0 [] s)"
  by (induction n arbitrary: f) (simp_all add: asciiSpace_def spaceLen.simps)

lemma FieldsFrom_letters:
  "FieldsFrom 0 f (replicate n (CHR ''a'')) =
     (if f = [] \<and> n = 0 then [] else [f @ replicate n (CHR ''a'')])"
  by (induction n arbitrary: f) (simp_all add: asciiSpace_def spaceLen.simps replicate_append_same)

lemma Join_Cons: "Join (x # xs) sep = x @ (if xs = [] then [] else sep @ Join xs sep)"
  by (cases xs) simp_all

lemma length_Join_FieldsFrom: "length (Join (FieldsFrom k f s) '' '') \<le> length f + length s"
proof (induction k f s rule: FieldsFrom.induct)
  case (1 k field)
  then show ?case by simp
next
  case (2 k field c cs)
  then show ?case by simp
next
  case (3 field c cs)
  show ?case
  proof (cases "spaceLen (c # cs)")
    case 0
    with 3 show ?thesis by simp
  next
    case (Suc k)
    with 3(2) [of k] have "length (Join (FieldsFrom k [] cs) '' '') \<le> length cs" by simp
    with Suc show ?thesis by (simp add: Join_Cons)
  qed
qed

lemma length_minifyText: "length (minifyText d) \<le> length d"
  using length_Join_FieldsFrom [of 0 "[]" d] by (simp add: minifyText_def Fields_def)

lemma renderEndpoints_append:
  "renderEndpoints unicodeUpper h (pre @ eps) =
     (case renderEndpoints unicodeUpper h pre of
        Inl e \<Rightarrow> Inl e
      | Inr out \<Rightarrow>
          (case renderEndpoints unicodeUpper h eps of
             Inl e \<Rightarrow> Inl e
           | Inr outs \<Rightarrow> Inr (out @ outs)))"
  by (induction pre) (auto split: sum.splits)

lemma renderEndpoint_description:
  assumes "renderParameters h (Endpoint_Parameters ep) = Inr ps"
    and "renderResponses h (Endpoint_Responses ep) = Inr rs"
  shows "renderEndpoint unicodeUpper h ep =
           Inr (''ENDPOINT: '' @ ToUpper unicodeUpper (Endpoint_Method ep) @ '' '' @
                  Endpoint_Path ep @ NL @
                ''SUMMARY: '' @ Endpoint_Summary ep @ NL @
                ''DESCRIPTION: '' @
                (if minifyText (Endpoint_Description ep) = [] then ''(None)''
                 else if 20000 < length (minifyText (Endpoint_Description ep))
                      then take 2000 (minifyText (Endpoint_Description ep)) @ ''...''
                      else minifyText (Endpoint_Description ep)) @ NL @
                ''PARAMETERS:'' @ NL @
                (if Endpoint_Parameters ep = [] then ''  (None)'' @ NL else ps) @
                ''REQUEST BODY: '' @ requestBodyText h (Endpoint_RequestBody ep) @ NL @
                ''RESPONSES:'' @ NL @
                (if Endpoint_Responses ep = [] then ''  (None)'' @ NL else rs) @
                ''END'' @ NL)"
  using assms by (simp add: renderEndpoint_def descriptionLine_def endpointDesc_def)

text \<open>
  Claim C7, as amended. In the text that \<open>RenderText\<close> returns, the description line
  of an endpoint is decided by the length of the description after its white space has
  been collapsed, which is never more than the length before: beyond 20000 bytes the line
  shows the first 2000 bytes of the collapsed text followed by three dots, up to 20000
  bytes the collapsed text as it is, and \<open>(None)\<close> when nothing is left. The theorem
  gives the whole text for a document in which \<open>ep\<close> stands between the endpoints
  \<open>pre\<close> and \<open>post\<close>, whose blocks are \<open>outPre\<close> and \<open>outPost\<close>; \<open>ps\<close> and \<open>rs\<close> are the
  lines of the parameters and of the responses of \<open>ep\<close>.
\<close>

theorem description_truncation:
  assumes "Doc_Endpoints doc = pre @ ep # post"
    and "renderEndpoints unicodeUpper h pre = Inr outPre"
    and "renderParameters h (Endpoint_Parameters ep) = Inr ps"
    and "renderResponses h (Endpoint_Responses ep) = Inr rs"
    and "renderEndpoints unicodeUpper h post = Inr outPost"
  shows "RenderText unicodeUpper doc h =
           Inr (''API: '' @ Doc_Title doc @ '' (v'' @ Doc_Version doc @ '')'' @ NL @ NL @
                ''DESCRIPTION:'' @ NL @
                (if Doc_Description doc \<noteq> [] then Doc_Description doc
                 else ''(None or your description here)'') @
                NL @ NL @
                outPre @
                ''ENDPOINT: '' @ ToUpper unicodeUpper (Endpoint_Method ep) @ '' '' @
                  Endpoint_Path ep @ NL @
                ''SUMMARY: '' @ Endpoint_Summary ep @ NL @
                ''DESCRIPTION: '' @
                (if minifyText (Endpoint_Description ep) = [] then ''(None)''
                 else if 20000 < length (minifyText (Endpoint_Description ep))
                      then take 2000 (minifyText (Endpoint_Description ep)) @ ''...''
                      else minifyText (Endpoint_Description ep)) @ NL @
                ''PARAMETERS:'' @ NL @
                (if Endpoint_Parameters ep = [] then ''  (None)'' @ NL else ps) @
                ''REQUEST BODY: '' @ requestBodyText h (Endpoint_RequestBody ep) @ NL @
                ''RESPONSES:'' @ NL @
                (if Endpoint_Responses ep = [] then ''  (None)'' @ NL else rs) @
                ''END'' @ NL @
                outPost) \<and>
         length (minifyText (Endpoint_Description ep)) \<le> length (Endpoint_Description ep)"
proof -
  have "renderEndpoints unicodeUpper h (pre @ ep # post) =
      Inr (outPre @
           (''ENDPOINT: '' @ ToUpper unicodeUpper (Endpoint_Method ep) @ '' '' @
              Endpoint_Path ep @ NL @
            ''SUMMARY: '' @ Endpoint_Summary ep @ NL @
            ''DESCRIPTION: '' @
            (if minifyText (Endpoint_Description ep) = [] then ''(None)''
             else if 20000 < length (minifyText (Endpoint_Description ep))
                  then take 2000 (minifyText (Endpoint_Description ep)) @ ''...''
                  else minifyText (Endpoint_Description ep)) @ NL @
            ''PARAMETERS:'' @ NL @
            (if Endpoint_Parameters ep = [] then ''  (None)'' @ NL else ps) @
            ''REQUEST BODY: '' @ requestBodyText h (Endpoint_RequestBody ep) @ NL @
            ''RESPONSES:'' @ NL @
            (if Endpoint_Responses ep = [] then ''  (None)'' @ NL else rs) @
            ''END'' @ NL) @ outPost)"
    unfolding renderEndpoints_append renderEndpoints.simps assms(2,5)
      renderEndpoint_description [OF assms(3,4)]
    by simp
  then show ?thesis
    using assms(1) by (simp add: RenderText_def length_minifyText)
qed

text \<open>
  A document whose only endpoint has a description of 20001 letters: the line shows
  2000 of them and three dots.
\<close>

theorem description_truncation_witness:
  "RenderText id longDescriptionDoc zeroHeap =
     Inr (''API:  (v)'' @ NL @ NL @ ''DESCRIPTION:'' @ NL @
          ''(None or your description here)'' @ NL @ NL @
          ''ENDPOINT:  '' @ NL @ ''SUMMARY: '' @ NL @
          ''DESCRIPTION: '' @ replicate 2000 (CHR ''a'') @ ''...'' @ NL @
          ''PARAMETERS:'' @ NL @ ''  (None)'' @ NL @
          ''REQUEST BODY: None'' @ NL @
          ''RESPONSES:'' @ NL @ ''  (None)'' @ NL @
          ''END'' @ NL)"
  using description_truncation [of longDescriptionDoc "[]"
      "zeroEndpoint\<lparr>Endpoint_Description := replicate 20001 (CHR ''a'')\<rparr>" "[]" id zeroHeap
      "[]" "[]" "[]" "[]"]
  by (simp add: longDescriptionDoc_def zeroDocument_def zeroEndpoint_def minifyText_def
      Fields_def FieldsFrom_letters ToUpper_def requestBodyText_def)

text \<open>
  A document whose only endpoint has a description of 20002 bytes, the letter a, 20000
  blanks and the letter b: it is beyond the threshold before collapsing and is printed
  whole, so the check is not made on the length before collapsing.
\<close>

theorem precollapse_threshold_counterexample:
  "20000 < length (Endpoint_Description (hd (Doc_Endpoints blankDescriptionDoc))) \<and>
   RenderText id blankDescriptionDoc zeroHeap =
     Inr (''API:  (v)'' @ NL @ NL @ ''DESCRIPTION:'' @ NL @
          ''(None or your description here)'' @ NL @ NL @
          ''ENDPOINT:  '' @ NL @ ''SUMMARY: '' @ NL @
          ''DESCRIPTION: a b'' @ NL @
          ''PARAMETERS:'' @ NL @ ''  (None)'' @ NL @
          ''REQUEST BODY: None'' @ NL @
          ''RESPONSES:'' @ NL @ ''  (None)'' @ NL @
          ''END'' @ NL)"
  using FieldsFrom_spaces_append [of "''a''" 20000 "''b''"]
  by (simp add: blankDescriptionDoc_def zeroDocument_def zeroEndpoint_def RenderText_def
      renderEndpoint_def descriptionLine_def endpointDesc_def minifyText_def Fields_def
      asciiSpace_def spaceLen.simps ToUpper_def requestBodyText_def)

section \<open>Properties of the conversion\<close>

lemma extends_refl [simp]: "extends h h"
  by (simp add: extends_def)

lemma extends_trans: "extends h h1 \<Longrightarrow> extends h1 h2 \<Longrightarrow> extends h h2"
  by (auto simp: extends_def)

lemma below_extends: "below h p \<Longrightarrow> extends h h' \<Longrightarrow> below h' p"
  by (auto simp: below_def extends_def split: option.splits)

lemma deref_extends:
  "below h p \<Longrightarrow> extends h h' \<Longrightarrow> map_option (parameters h') p = map_option (parameters h) p"
  "below h p \<Longrightarrow> extends h h' \<Longrightarrow> map_option (responses h') p = map_option (responses h) p"
  by (auto simp: below_def extends_def split: option.splits)


lemma extends_new_Parameter: "extends h (snd (new_Parameter p h))"
  by (simp add: extends_def new_Parameter_def)

lemma extends_new_Response: "extends h (snd (new_Response r h))"
  by (simp add: extends_def new_Response_def)

lemma convertParameters_spec:
  "convertParameters ps h = (res, h') \<Longrightarrow>
   extends h h' \<and> list_all (below h') res \<and>
   map (map_option (parameters h')) res = map Some ps"
proof (induction ps arbitrary: h res)
  case Nil
  then show ?case by simp
next
  case (Cons p ps)
  define h1 where "h1 = snd (new_Parameter p h)"
  have np: "new_Parameter p h = (next_addr h, h1)"
    by (simp add: h1_def new_Parameter_def)
  obtain res1 h2 where r: "convertParameters ps h1 = (res1, h2)"
    by (cases "convertParameters ps h1")
  have res: "res = Some (next_addr h) # res1" and h2: "h2 = h'"
    using Cons.prems np r by simp_all
  from Cons.IH [OF r [unfolded h2]] have ih: "extends h1 h'" "list_all (below h') res1"
    "map (map_option (parameters h')) res1 = map Some ps" by simp_all
  have e1: "extends h h1"
    unfolding h1_def by (rule extends_new_Parameter)
  have n1: "next_addr h1 = Suc (next_addr h)" "parameters h1 (next_addr h) = p"
    by (simp_all add: h1_def new_Parameter_def)
  have "parameters h' (next_addr h) = p" "below h' (Some (next_addr h))"
    using ih(1) n1 by (simp_all add: extends_def below_def)
  then show ?case
    using ih(2,3) res extends_trans [OF e1 ih(1)] by simp
qed

lemma convertResponses_spec:
  "convertResponses rs h = (res, h') \<Longrightarrow>
   extends h h' \<and> list_all (\<lambda>(code, r). below h' r) res \<and>
   map (\<lambda>(code, r). (code, map_option (responses h') r)) res = map (\<lambda>(code, r). (code, Some r)) rs"
proof (induction rs arbitrary: h res)
  case Nil
  then show ?case by simp
next
  case (Cons cr rs)
  obtain code r where cr: "cr = (code, r)" by (cases cr)
  define h1 where "h1 = snd (new_Response r h)"
  have np: "new_Response r h = (next_addr h, h1)"
    by (simp add: h1_def new_Response_def)
  obtain res1 h2 where r: "convertResponses rs h1 = (res1, h2)"
    by (cases "convertResponses rs h1")
  have res: "res = (code, Some (next_addr h)) # res1" and h2: "h2 = h'"
    using Cons.prems np r cr by simp_all
  from Cons.IH [OF r [unfolded h2]] have ih: "extends h1 h'"
    "list_all (\<lambda>(code, r). below h' r) res1"
    "map (\<lambda>(code, r). (code, map_option (responses h') r)) res1 = map (\<lambda>(code, r). (code, Some r)) rs"
    by simp_all
  have e1: "extends h h1"
    unfolding h1_def by (rule extends_new_Response)
  have n1: "next_addr h1 = Suc (next_addr h)" "responses h1 (next_addr h) = r"
    by (simp_all add: h1_def new_Response_def)
  have "responses h' (next_addr h) = r" "below h' (Some (next_addr h))"
    using ih(1) n1 by (simp_all add: extends_def below_def)
  then show ?case
    using ih(2,3) res cr extends_trans [OF e1 ih(1)] by simp
qed


lemma fromOperation_extends:
  assumes "fromOperation h ep t \<and> owned h ep" "extends h h'"
  shows "fromOperation h' ep t \<and> owned h' ep"
proof -
  have pb: "\<And>p. p \<in> set (Endpoint_Parameters ep) \<Longrightarrow> below h p"
    and rb: "\<And>code r. (code, r) \<in> set (Endpoint_Responses ep) \<Longrightarrow> below h r"
    using assms(1) by (auto simp: owned_def list_all_iff)
  have p: "map (map_option (parameters h')) (Endpoint_Parameters ep) =
           map (map_option (parameters h)) (Endpoint_Parameters ep)"
    by (rule map_ext) (simp add: deref_extends(1) [OF pb assms(2)])
  have r: "map (\<lambda>(code, r). (code, map_option (responses h') r)) (Endpoint_Responses ep) =
           map (\<lambda>(code, r). (code, map_option (responses h) r)) (Endpoint_Responses ep)"
    by (rule map_ext) (auto simp: deref_extends(2) [OF rb assms(2)])
  have o: "owned h' ep"
    using below_extends [OF pb assms(2)] below_extends [OF rb assms(2)]
    by (auto simp: owned_def list_all_iff)
  from assms(1) have "fromOperation h ep t" by simp
  then have "fromOperation h' ep t"
    unfolding fromOperation_def p r .
  with o show ?thesis by simp
qed


lemma createEndpointFromOperation_spec:
  assumes "createEndpointFromOperation path method op h = (ep, h')"
  shows "extends h h' \<and> fromOperation h' ep (path, method, op) \<and> owned h' ep"
proof -
  obtain ps h1 where ps: "convertParameters (Operation_Parameters op) h = (ps, h1)"
    by (cases "convertParameters (Operation_Parameters op) h")
  obtain rs h2 where rs: "convertResponses (Operation_Responses op) h1 = (rs, h2)"
    by (cases "convertResponses (Operation_Responses op) h1")
  have h2: "h2 = h'" and ep: "Endpoint_Parameters ep = ps" "Endpoint_Responses ep = rs"
    "Endpoint_Path ep = path" "Endpoint_Method ep = method"
    "Endpoint_Summary ep = Operation_Summary op" "Endpoint_Description ep = Operation_Description op"
    "Endpoint_RequestBody ep = None"
    using assms ps rs by (auto simp: createEndpointFromOperation_def)
  note P = convertParameters_spec [OF ps]
  note R = convertResponses_spec [OF rs [unfolded h2]]
  from P have P1: "extends h h1" and P2: "list_all (below h1) ps"
    and P3: "map (map_option (parameters h1)) ps = map Some (Operation_Parameters op)"
    by simp_all
  from R have R1: "extends h1 h'" and R2: "list_all (\<lambda>(code, r). below h' r) rs"
    and R3: "map (\<lambda>(code, r). (code, map_option (responses h') r)) rs =
             map (\<lambda>(code, r). (code, Some r)) (Operation_Responses op)"
    by simp_all
  have pb: "\<And>p. p \<in> set ps \<Longrightarrow> below h1 p"
    using P2 by (simp add: list_all_iff)
  have "map (map_option (parameters h')) ps = map (map_option (parameters h1)) ps"
    by (rule map_ext) (simp add: deref_extends(1) [OF pb R1])
  then have pd: "map (map_option (parameters h')) ps = map Some (Operation_Parameters op)"
    using P3 by (rule trans)
  have pb': "list_all (below h') ps"
    using below_extends [OF pb R1] by (simp add: list_all_iff)
  have "fromOperation h' ep (path, method, op)"
    unfolding fromOperation_def prod.case ep using pd R3 by simp
  moreover have "owned h' ep"
    unfolding owned_def ep using pb' R2 by simp
  ultimately show ?thesis
    using extends_trans [OF P1 R1] by simp
qed


lemma appendOperations_spec:
  "appendOperations path ms eps h = (eps', h') \<Longrightarrow>
   list_all2 (\<lambda>ep t. fromOperation h ep t \<and> owned h ep) eps ts \<Longrightarrow>
   extends h h' \<and>
   list_all2 (\<lambda>ep t. fromOperation h' ep t \<and> owned h' ep) eps' (ts @ presentOperations path ms)"
proof (induction path ms eps h arbitrary: ts rule: appendOperations.induct)
  case (1 path endpoints h)
  then show ?case by simp
next
  case (2 path m rest endpoints h)
  then show ?case by simp
next
  case (3 path m operation rest endpoints h)
  obtain ep h1 where c: "createEndpointFromOperation path m operation h = (ep, h1)"
    by (cases "createEndpointFromOperation path m operation h")
  note C = createEndpointFromOperation_spec [OF c]
  from C have C1: "extends h h1" and C2: "fromOperation h1 ep (path, m, operation) \<and> owned h1 ep"
    by simp_all
  have rest: "appendOperations path rest (endpoints @ [ep]) h1 = (eps', h')"
    using "3.prems"(1) c by simp
  have "list_all2 (\<lambda>ep t. fromOperation h1 ep t \<and> owned h1 ep) endpoints ts"
    using "3.prems"(2)
    by (rule list_all2_mono) (rule fromOperation_extends [OF _ C1])
  then have "list_all2 (\<lambda>ep t. fromOperation h1 ep t \<and> owned h1 ep) (endpoints @ [ep])
               (ts @ [(path, m, operation)])"
    using C2 by (simp add: list_all2_appendI)
  from "3.IH" [OF c [symmetric] rest this]
  have "extends h1 h'"
    and "list_all2 (\<lambda>ep t. fromOperation h' ep t \<and> owned h' ep) eps'
           ((ts @ [(path, m, operation)]) @ presentOperations path rest)"
    by simp_all
  then show ?case
    using extends_trans [OF C1] by simp
qed

lemma convertPaths_spec:
  "convertPaths paths eps h = (eps', h') \<Longrightarrow>
   list_all2 (\<lambda>ep t. fromOperation h ep t \<and> owned h ep) eps ts \<Longrightarrow>
   extends h h' \<and>
   list_all2 (\<lambda>ep t. fromOperation h' ep t \<and> owned h' ep) eps' (ts @ declaredOperations paths)"
proof (induction paths eps h arbitrary: ts rule: convertPaths.induct)
  case (1 endpoints h)
  then show ?case by simp
next
  case (2 path item paths endpoints h)
  obtain eps1 h1 where a: "appendOperations path (methodsOf item) endpoints h = (eps1, h1)"
    by (cases "appendOperations path (methodsOf item) endpoints h")
  from appendOperations_spec [OF a "2.prems"(2)]
  have A1: "extends h h1"
    and A2: "list_all2 (\<lambda>ep t. fromOperation h1 ep t \<and> owned h1 ep) eps1
               (ts @ presentOperations path (methodsOf item))"
    by simp_all
  have rest: "convertPaths paths eps1 h1 = (eps', h')"
    using "2.prems"(1) a by simp
  from "2.IH" [OF a [symmetric] rest A2]
  have "extends h1 h'"
    and "list_all2 (\<lambda>ep t. fromOperation h' ep t \<and> owned h' ep) eps'
           ((ts @ presentOperations path (methodsOf item)) @ declaredOperations paths)"
    by simp_all
  then show ?case
    using extends_trans [OF A1] by simp
qed


lemma presentOperations_keys:
  "t \<in> set (presentOperations path ms) \<Longrightarrow> fst t = path \<and> fst (snd t) \<in> fst ` set ms"
  by (induction path ms rule: presentOperations.induct) auto

lemma presentOperations_distinct:
  "distinct (map fst ms) \<Longrightarrow> distinct (map pathMethod (presentOperations path ms))"
proof (induction path ms rule: presentOperations.induct)
  case (1 path)
  then show ?case by simp
next
  case (2 path m rest)
  then show ?case by simp
next
  case (3 path m operation rest)
  have "(path, m) \<notin> pathMethod ` set (presentOperations path rest)"
  proof
    assume "(path, m) \<in> pathMethod ` set (presentOperations path rest)"
    then obtain t where "t \<in> set (presentOperations path rest)" "pathMethod t = (path, m)"
      by auto
    with presentOperations_keys [of t path rest] have "m \<in> fst ` set rest"
      by (simp add: pathMethod_def)
    with "3.prems" show False by simp
  qed
  with 3 show ?case by (simp add: pathMethod_def)
qed

lemma declaredOperations_keys:
  "t \<in> set (declaredOperations paths) \<Longrightarrow> fst t \<in> fst ` set paths"
  by (induction paths rule: declaredOperations.induct)
     (auto dest: presentOperations_keys)

lemma distinct_methodsOf: "distinct (map fst (methodsOf item))"
  by (simp add: methodsOf_def)

lemma declaredOperations_distinct:
  "distinct (map fst paths) \<Longrightarrow> distinct (map pathMethod (declaredOperations paths))"
proof (induction paths rule: declaredOperations.induct)
  case 1
  then show ?case by simp
next
  case (2 path item paths)
  have "pathMethod ` set (presentOperations path (methodsOf item)) \<inter>
        pathMethod ` set (declaredOperations paths) = {}"
  proof (rule ccontr)
    assume "\<not> ?thesis"
    then obtain t u where t: "t \<in> set (presentOperations path (methodsOf item))"
      and u: "u \<in> set (declaredOperations paths)" and eq: "pathMethod t = pathMethod u"
      by blast
    from presentOperations_keys [OF t] declaredOperations_keys [OF u] eq
    have "path \<in> fst ` set paths" by (simp add: pathMethod_def)
    with "2.prems" show False by simp
  qed
  with 2 presentOperations_distinct [OF distinct_methodsOf, of path item] show ?case
    by simp
qed

lemma fromOperation_pathMethod:
  "list_all2 (fromOperation h) eps ts \<Longrightarrow>
   map (\<lambda>ep. (Endpoint_Path ep, Endpoint_Method ep)) eps = map pathMethod ts"
  by (induction eps ts rule: list_all2_induct)
     (auto simp: fromOperation_def pathMethod_def)

text \<open>
  The seven tests of the loop body are those of the seven recognised methods, each on
  the field of its name.
\<close>

lemma methodsOf_operationOf:
  "((m, Some operation) \<in> set (methodsOf item)) = (operationOf item m = Some operation)"
  unfolding methodsOf_def operationOf_def
  by (simp split: if_splits) (intro conjI impI; rule eq_commute)

lemma presentOperations_member:
  "(t \<in> set (presentOperations path ms)) =
     (\<exists>m operation. t = (path, m, operation) \<and> (m, Some operation) \<in> set ms)"
  by (induction path ms rule: presentOperations.induct) auto

lemma declaredOperations_member:
  "(path, m, operation) \<in> set (declaredOperations paths) \<Longrightarrow>
   \<exists>item. (path, item) \<in> set paths \<and> operationOf item m = Some operation"
  by (induction paths rule: declaredOperations.induct)
     (auto simp: presentOperations_member methodsOf_operationOf)

lemma count_presentOperations:
  "distinct (map fst ms) \<Longrightarrow>
   count_list (map pathMethod (presentOperations p ms)) (path, m) =
     (if p = path \<and> (\<exists>operation. (m, Some operation) \<in> set ms) then 1 else 0)"
proof (induction p ms rule: presentOperations.induct)
  case (1 p)
  then show ?case by simp
next
  case (2 p m' rest)
  then show ?case by auto
next
  case (3 p m' operation rest)
  have "(m', x) \<notin> set rest" for x
    using "3.prems" by (auto simp: image_iff)
  with 3 show ?case
    by (auto simp: pathMethod_def)
qed

lemma count_declaredOperations:
  "count_list (map pathMethod (declaredOperations paths)) (path, m) =
     length (filter (\<lambda>(p, item). p = path \<and> operationOf item m \<noteq> None) paths)"
proof (induction paths rule: declaredOperations.induct)
  case 1
  then show ?case by simp
next
  case (2 p item paths)
  have "count_list (map pathMethod (presentOperations p (methodsOf item))) (path, m) =
      (if p = path \<and> operationOf item m \<noteq> None then 1 else 0)"
    by (simp add: count_presentOperations [OF distinct_methodsOf] methodsOf_operationOf)
  with 2 show ?case by simp
qed

lemma fromOperation_declared:
  assumes "list_all2 (fromOperation h) eps (declaredOperations paths)"
  shows "list_all (\<lambda>ep. \<exists>item operation.
           (Endpoint_Path ep, item) \<in> set paths \<and>
           operationOf item (Endpoint_Method ep) = Some operation \<and>
           fromOperation h ep (Endpoint_Path ep, Endpoint_Method ep, operation)) eps"
  unfolding list_all_iff
proof
  fix ep
  assume "ep \<in> set eps"
  then obtain i where i: "i < length eps" and ep: "ep = eps ! i"
    by (auto simp: in_set_conv_nth)
  have len: "length eps = length (declaredOperations paths)"
    using assms by (rule list_all2_lengthD)
  define t where "t = declaredOperations paths ! i"
  have t: "t \<in> set (declaredOperations paths)"
    unfolding t_def using i len by simp
  have f: "fromOperation h ep t"
    unfolding t_def ep using assms i by (rule list_all2_nthD)
  obtain path m operation where tt: "t = (path, m, operation)"
    by (cases t)
  with f have keys: "Endpoint_Path ep = path" "Endpoint_Method ep = m"
    by (simp_all add: fromOperation_def)
  from declaredOperations_member t tt obtain item where
    "(path, item) \<in> set paths" "operationOf item m = Some operation"
    by blast
  with f tt keys show "\<exists>item operation.
      (Endpoint_Path ep, item) \<in> set paths \<and>
      operationOf item (Endpoint_Method ep) = Some operation \<and>
      fromOperation h ep (Endpoint_Path ep, Endpoint_Method ep, operation)"
    by auto
qed

text \<open>
  Claim C5. For every path and every method name, the converted document has as many
  endpoints with that path and that method as the Swagger document has entries of that
  path whose path item declares the method among the seven recognised ones: one for a
  path and a method present in its item, none for an absent method or another name.
  Every endpoint has the path of an entry and a method that the item of the entry
  declares, the summary, description, parameters and responses of that operation, and
  no request body. When the paths are distinct, as the keys of a map are, no pair of
  path and method occurs twice. The server list is empty, and title, version and
  description are those of the info block.
\<close>

theorem swagger_conversion:
  assumes "convertSwaggerToAPIDocument sw h = (doc, h')"
  shows "count_list (map (\<lambda>ep. (Endpoint_Path ep, Endpoint_Method ep)) (Doc_Endpoints doc))
           (path, m) =
           length (filter (\<lambda>(p, item). p = path \<and> operationOf item m \<noteq> None)
                     (Swagger_Paths sw)) \<and>
         list_all (\<lambda>ep. \<exists>item operation.
            (Endpoint_Path ep, item) \<in> set (Swagger_Paths sw) \<and>
            operationOf item (Endpoint_Method ep) = Some operation \<and>
            fromOperation h' ep (Endpoint_Path ep, Endpoint_Method ep, operation))
           (Doc_Endpoints doc) \<and>
         (distinct (map fst (Swagger_Paths sw)) \<longrightarrow>
            distinct (map (\<lambda>ep. (Endpoint_Path ep, Endpoint_Method ep)) (Doc_Endpoints doc))) \<and>
         Doc_Servers doc = [] \<and> Doc_Components doc = None \<and>
         Doc_Title doc = Info_Title (Swagger_Info sw) \<and>
         Doc_Version doc = Info_Version (Swagger_Info sw) \<and>
         Doc_Description doc = Info_Description (Swagger_Info sw)"
proof -
  obtain eps h1 where c: "convertPaths (Swagger_Paths sw) [] h = (eps, h1)"
    by (cases "convertPaths (Swagger_Paths sw) [] h")
  have doc: "Doc_Endpoints doc = eps" "Doc_Servers doc = []" "Doc_Components doc = None"
    "Doc_Title doc = Info_Title (Swagger_Info sw)"
    "Doc_Version doc = Info_Version (Swagger_Info sw)"
    "Doc_Description doc = Info_Description (Swagger_Info sw)" and h1: "h1 = h'"
    using assms c by (auto simp: convertSwaggerToAPIDocument_def)
  from convertPaths_spec [OF c [unfolded h1], of "[]"]
  have "list_all2 (\<lambda>ep t. fromOperation h' ep t \<and> owned h' ep) eps
          (declaredOperations (Swagger_Paths sw))"
    by simp
  then have l: "list_all2 (fromOperation h') eps (declaredOperations (Swagger_Paths sw))"
    by (rule list_all2_mono) simp
  note keys = fromOperation_pathMethod [OF l]
  have n: "count_list (map (\<lambda>ep. (Endpoint_Path ep, Endpoint_Method ep)) eps) (path, m) =
      length (filter (\<lambda>(p, item). p = path \<and> operationOf item m \<noteq> None) (Swagger_Paths sw))"
    unfolding keys by (rule count_declaredOperations)
  have d: "distinct (map (\<lambda>ep. (Endpoint_Path ep, Endpoint_Method ep)) eps)"
    if "distinct (map fst (Swagger_Paths sw))"
    using declaredOperations_distinct [OF that] keys by simp
  show ?thesis
    unfolding doc using n fromOperation_declared [OF l] d by simp
qed

lemma convertedExample_endpoints:
  "Doc_Endpoints (fst convertedExample) =
     [\<lparr>Endpoint_Path = ''/x'', Endpoint_Method = ''GET'', Endpoint_Summary = ''S'',
       Endpoint_Description = [], Endpoint_Parameters = [Some 0], Endpoint_RequestBody = None,
       Endpoint_Responses = [(''200'', Some 1)]\<rparr>,
      \<lparr>Endpoint_Path = ''/x'', Endpoint_Method = ''DELETE'', Endpoint_Summary = [],
       Endpoint_Description = [], Endpoint_Parameters = [], Endpoint_RequestBody = None,
       Endpoint_Responses = []\<rparr>,
      \<lparr>Endpoint_Path = ''/y'', Endpoint_Method = ''PATCH'', Endpoint_Summary = [],
       Endpoint_Description = [], Endpoint_Parameters = [], Endpoint_RequestBody = None,
       Endpoint_Responses = []\<rparr>]"
  by (simp add: convertedExample_def convertSwaggerToAPIDocument_def exampleSwagger_def
      methodsOf_def zeroPathItem_def zeroOperation_def getX_def createEndpointFromOperation_def
      new_Parameter_def new_Response_def zeroHeap_def)

text \<open>
  The example declares GET and DELETE under \<open>/x\<close> and PATCH under \<open>/y\<close>: there is one
  endpoint for GET \<open>/x\<close> and none for POST \<open>/x\<close>.
\<close>

theorem swagger_conversion_witness:
  "convertSwaggerToAPIDocument exampleSwagger zeroHeap = convertedExample \<and>
   count_list (map (\<lambda>ep. (Endpoint_Path ep, Endpoint_Method ep))
                 (Doc_Endpoints (fst convertedExample))) (''/x'', ''GET'') = 1 \<and>
   count_list (map (\<lambda>ep. (Endpoint_Path ep, Endpoint_Method ep))
                 (Doc_Endpoints (fst convertedExample))) (''/x'', ''POST'') = 0 \<and>
   map (\<lambda>ep. (Endpoint_Method ep, Endpoint_Path ep)) (Doc_Endpoints (fst convertedExample)) =
     [(''GET'', ''/x''), (''DELETE'', ''/x''), (''PATCH'', ''/y'')] \<and>
   Doc_Servers (fst convertedExample) = []"
proof -
  have c: "convertSwaggerToAPIDocument exampleSwagger zeroHeap =
      (fst convertedExample, snd convertedExample)"
    by (simp add: convertedExample_def)
  have paths: "length (filter (\<lambda>(p, item). p = ''/x'' \<and> operationOf item ''GET'' \<noteq> None)
                  (Swagger_Paths exampleSwagger)) = 1"
    "length (filter (\<lambda>(p, item). p = ''/x'' \<and> operationOf item ''POST'' \<noteq> None)
               (Swagger_Paths exampleSwagger)) = 0"
    by (simp_all add: exampleSwagger_def operationOf_def zeroPathItem_def)
  from swagger_conversion [OF c, of "''/x''" "''GET''"]
    swagger_conversion [OF c, of "''/x''" "''POST''"]
  have "count_list (map (\<lambda>ep. (Endpoint_Path ep, Endpoint_Method ep))
                      (Doc_Endpoints (fst convertedExample))) (''/x'', ''GET'') = 1"
    and "count_list (map (\<lambda>ep. (Endpoint_Path ep, Endpoint_Method ep))
                       (Doc_Endpoints (fst convertedExample))) (''/x'', ''POST'') = 0"
    and "Doc_Servers (fst convertedExample) = []"
    unfolding paths by blast+
  then show ?thesis
    by (simp add: convertedExample_def [symmetric] convertedExample_endpoints)
qed

end
